theory Spec2Isabelle
  imports Complex_Main
begin

section \<open>Descriptive statistics of column data (statdesc.py)\<close>

text \<open>
  A shallow embedding of \<^verbatim>\<open>statdesc\<close>, \<^verbatim>\<open>summary\<close> and \<^verbatim>\<open>statprint\<close>.
  Conventions of the embedding:
  \<^item> a double is a real number or the marker \<open>NaN\<close>; rounding and infinities are not
    modelled, every comparison with \<open>NaN\<close> is false;
  \<^item> numpy arrays live in a store of element buffers, so that \<^verbatim>\<open>np.asarray\<close> of an
    array is the same object and a reshape is a view of the same buffer; an array has
    rank 1 or 2, elements of type float64 or int64, and is contiguous in its buffer;
  \<^item> Python list objects of labels live in a store too; the list bound to the default
    of \<^verbatim>\<open>labels\<close> when the function is defined has a fixed address;
  \<^item> the functions of scipy that the code calls, whether matplotlib could be imported,
    and what the plotting functions do, are parameters (a record \<open>libs\<close>);
  \<^item> printing and the calls of the two variance tests are recorded in a trace.
\<close>

subsection \<open>Values, errors, library parameters\<close>

datatype fl = NaN | Fin real

datatype error = IndexError | ValueError | RenderError

fun fl_add :: "fl \<Rightarrow> fl \<Rightarrow> fl" where
  "fl_add (Fin a) (Fin b) = Fin (a + b)"
| "fl_add _ _ = NaN"

fun fl_mul :: "fl \<Rightarrow> fl \<Rightarrow> fl" where
  "fl_mul (Fin a) (Fin b) = Fin (a * b)"
| "fl_mul _ _ = NaN"

text \<open>Division is only used with a divisor \<open>sqrt n\<close>, \<open>n > 1\<close>; a zero divisor (an
  infinity or NaN in IEEE arithmetic) is given the marker.\<close>

fun fl_div :: "fl \<Rightarrow> fl \<Rightarrow> fl" where
  "fl_div (Fin a) (Fin b) = (if b = 0 then NaN else Fin (a / b))"
| "fl_div _ _ = NaN"

text \<open>\<^verbatim>\<open>v > c\<close> for a double \<open>v\<close>: false when \<open>v\<close> is NaN.\<close>

fun fl_gt :: "fl \<Rightarrow> real \<Rightarrow> bool" where
  "fl_gt (Fin a) c = (c < a)"
| "fl_gt NaN c = False"

text \<open>\<^verbatim>\<open>np.all(rows[:, 1] > c)\<close> on an array of pairs.\<close>

definition all_gt :: "(fl \<times> fl) list \<Rightarrow> real \<Rightarrow> bool" where
  "all_gt rows c = list_all (\<lambda>r. fl_gt (snd r) c) rows"

datatype plot_call = Plot1var nat string | Plotallvar | Scatterplot

record libs =
  t_pdf :: "real \<Rightarrow> real \<Rightarrow> real"
  shapiro :: "real list \<Rightarrow> fl \<times> fl"
  bartlett :: "real list list \<Rightarrow> fl \<times> fl"
  levene_median :: "real list list \<Rightarrow> fl \<times> fl"
  plt :: bool
  render :: "plot_call \<Rightarrow> error option"

subsection \<open>numpy reductions on a column without missing values\<close>

definition np_mean :: "real list \<Rightarrow> fl" where
  "np_mean v = (if v = [] then NaN else Fin (sum_list v / real (length v)))"

text \<open>\<^verbatim>\<open>np.std(x, ddof=1)\<close>: the sum of squared deviations over \<open>n - 1\<close>; for
  \<open>n \<le> 1\<close> numpy divides by zero degrees of freedom and returns NaN.\<close>

definition np_std_ddof1 :: "real list \<Rightarrow> fl" where
  "np_std_ddof1 v =
     (if length v \<le> 1 then NaN
      else Fin (sqrt (sum_list (map (\<lambda>a. (a - sum_list v / real (length v))\<^sup>2) v)
                      / real (length v - 1))))"

text \<open>\<^verbatim>\<open>np.median\<close> and \<^verbatim>\<open>np.percentile\<close> (linear interpolation between order
  statistics). \<^verbatim>\<open>summary\<close> never reaches them with an empty column.\<close>

definition np_median :: "real list \<Rightarrow> fl" where
  "np_median v =
     (if v = [] then NaN
      else if odd (length v) then Fin (sort v ! (length v div 2))
      else Fin ((sort v ! (length v div 2 - 1) + sort v ! (length v div 2)) / 2))"

definition np_percentile :: "real list \<Rightarrow> real \<Rightarrow> fl" where
  "np_percentile v q =
     (if v = [] then NaN
      else (let pos = q / 100 * real (length v - 1);
                lo = nat \<lfloor>pos\<rfloor>;
                hi = min (lo + 1) (length v - 1)
            in Fin (sort v ! lo + (pos - real lo) * (sort v ! hi - sort v ! lo))))"

subsection \<open>summary\<close>

type_synonym profile =
  "(fl \<times> fl) \<times> (fl \<times> fl) \<times> (fl \<times> fl) \<times> (fl \<times> fl \<times> fl) \<times> (fl \<times> fl)"

text \<open>The confidence limits of line 189: \<^verbatim>\<open>stats.t._pdf(.975, x.size - 1) * m_sd[1] /
  np.sqrt(x.size) * np.array([-1, 1]) + m_sd[0]\<close>.\<close>

definition conf_limits :: "libs \<Rightarrow> real list \<Rightarrow> fl \<times> fl \<Rightarrow> fl \<times> fl" where
  "conf_limits lib v msd =
     (let h = fl_div (fl_mul (Fin (t_pdf lib (975 / 1000) (real (length v - 1)))) (snd msd))
                     (Fin (sqrt (real (length v))))
      in (fl_add (fl_mul h (Fin (- 1))) (fst msd), fl_add (fl_mul h (Fin 1)) (fst msd)))"

text \<open>\<^verbatim>\<open>x.min()\<close> raises ValueError on an empty array; the statements before it only
  warn.\<close>

definition summary :: "libs \<Rightarrow> real list \<Rightarrow> error + profile" where
  "summary lib v =
     (let msd = (np_mean v, np_std_ddof1 v);
          cl = (if length v > 1 then conf_limits lib v msd else (NaN, NaN))
      in if v = [] then Inl ValueError
         else Inr (msd, cl,
                   (Fin (Min (set v)), Fin (Max (set v))),
                   (np_median v, np_percentile v 25, np_percentile v 75),
                   (if length v > 2 then shapiro lib v else (NaN, NaN))))"

subsection \<open>The store: arrays, label lists, trace\<close>

type_synonym addr = nat

datatype shape = Rank1 nat | Rank2 nat nat

datatype dtype = Float64 | Int64

text \<open>An array is a C-contiguous window of a buffer: \<open>offset\<close> is the position of its
  first element, so that a leading or trailing slice of an array shares its buffer.
  The elements of an array of integers are stored as the doubles they convert to.\<close>

record ndarray =
  base :: addr
  shape :: shape
  dtype :: dtype
  offset :: nat

datatype fmt_arg = S string | D nat | F fl

datatype event =
    Print string "fmt_arg list"
  | Bartlett "real list list"
  | Levene "real list list"

record pystate =
  arrays :: "addr \<Rightarrow> fl list"
  next_array :: addr
  lists :: "addr \<Rightarrow> string list"
  trace :: "event list"

definition emit :: "event \<Rightarrow> pystate \<Rightarrow> pystate" where
  "emit e st = st\<lparr>trace := trace st @ [e]\<rparr>"

text \<open>The arguments of a call: the data as a Python sequence of floats or of integers
  (copied by \<^verbatim>\<open>np.asarray\<close>, a sequence that mixes both being one of floats) or as an
  array (returned as it is); \<^verbatim>\<open>missing\<close> as a string or a number; \<^verbatim>\<open>labels\<close> omitted
  or a list object.\<close>

datatype data_arg =
    PySeq "fl list"
  | PyRows "fl list list"
  | PyIntSeq "int list"
  | PyIntRows "int list list"
  | NdArray ndarray

datatype missing_arg = MissingStr string | MissingNum fl

datatype labels_arg = Omitted | Given addr

definition default_labels :: addr where
  "default_labels = 0"

fun labels_addr :: "labels_arg \<Rightarrow> addr" where
  "labels_addr Omitted = default_labels"
| "labels_addr (Given a) = a"

definition alloc :: "fl list \<Rightarrow> shape \<Rightarrow> dtype \<Rightarrow> pystate \<Rightarrow> (error + ndarray) \<times> pystate" where
  "alloc buf sh dt st =
     (Inr \<lparr>base = next_array st, shape = sh, dtype = dt, offset = 0\<rparr>,
      st\<lparr>arrays := (arrays st)(next_array st := buf), next_array := next_array st + 1\<rparr>)"

text \<open>\<^verbatim>\<open>np.asarray\<close> of nested sequences: rows of different lengths do not make a numeric
  2-D array; an array without elements is one of floats.\<close>

definition rows_array :: "fl list list \<Rightarrow> dtype \<Rightarrow> pystate \<Rightarrow> (error + ndarray) \<times> pystate" where
  "rows_array rows dt st =
     (case rows of
        [] \<Rightarrow> alloc [] (Rank1 0) Float64 st
      | r # rs \<Rightarrow>
          (if list_all (\<lambda>r'. length r' = length r) rs
           then alloc (concat (r # rs)) (Rank2 (Suc (length rs)) (length r))
                  (if concat (r # rs) = [] then Float64 else dt) st
           else (Inl ValueError, st)))"

definition asarray :: "data_arg \<Rightarrow> pystate \<Rightarrow> (error + ndarray) \<times> pystate" where
  "asarray d st =
     (case d of
        NdArray a \<Rightarrow> (Inr a, st)
      | PySeq v \<Rightarrow> alloc v (Rank1 (length v)) Float64 st
      | PyIntSeq v \<Rightarrow>
          alloc (map (\<lambda>k. Fin (of_int k)) v) (Rank1 (length v))
            (if v = [] then Float64 else Int64) st
      | PyRows rows \<Rightarrow> rows_array rows Float64 st
      | PyIntRows rows \<Rightarrow> rows_array (map (map (\<lambda>k. Fin (of_int k))) rows) Int64 st)"

text \<open>Lines 103-104: a rank-1 array is viewed as one column.\<close>

fun as_columns :: "ndarray \<Rightarrow> ndarray" where
  "as_columns a = (case shape a of Rank1 n \<Rightarrow> a\<lparr>shape := Rank2 n 1\<rparr> | Rank2 r c \<Rightarrow> a)"

fun nrows :: "ndarray \<Rightarrow> nat" where
  "nrows a = (case shape a of Rank1 n \<Rightarrow> n | Rank2 r c \<Rightarrow> r)"

fun ncols :: "ndarray \<Rightarrow> nat" where
  "ncols a = (case shape a of Rank1 n \<Rightarrow> 1 | Rank2 r c \<Rightarrow> c)"

text \<open>The positions of the buffer that are elements of the array.\<close>

definition in_array :: "ndarray \<Rightarrow> nat \<Rightarrow> bool" where
  "in_array a k = (offset a \<le> k \<and> k < offset a + nrows a * ncols a)"

text \<open>Lines 106-108: \<^verbatim>\<open>data[data == missing] = np.NaN\<close> writes into the buffer of
  \<open>data\<close>. The value is converted to the type of the array before any element is
  written: in an array of integers the assignment raises ValueError (NaN is no integer)
  and writes nothing.\<close>

definition replace_missing ::
  "missing_arg \<Rightarrow> ndarray \<Rightarrow> pystate \<Rightarrow> (error + unit) \<times> pystate" where
  "replace_missing m a st =
     (case m of
        MissingNum (Fin c) \<Rightarrow>
          (case dtype a of
             Int64 \<Rightarrow> (Inl ValueError, st)
           | Float64 \<Rightarrow>
               (Inr (),
                st\<lparr>arrays := (arrays st)(base a :=
                      map (\<lambda>k. if in_array a k \<and> arrays st (base a) ! k = Fin c then NaN
                                else arrays st (base a) ! k)
                        [0..<length (arrays st (base a))])\<rparr>))
      | MissingNum NaN \<Rightarrow> (Inr (), st)
      | MissingStr s \<Rightarrow> (Inr (), st))"

text \<open>\<^verbatim>\<open>data[:, i]\<close> of a row-major buffer, and \<^verbatim>\<open>data[~np.isnan(data[:, i]), i]\<close>.\<close>

definition column :: "pystate \<Rightarrow> ndarray \<Rightarrow> nat \<Rightarrow> fl list" where
  "column st a i =
     map (\<lambda>k. arrays st (base a) ! (offset a + k * ncols a + i)) [0..<nrows a]"

fun not_nan :: "fl list \<Rightarrow> real list" where
  "not_nan [] = []"
| "not_nan (NaN # es) = not_nan es"
| "not_nan (Fin a # es) = a # not_nan es"

definition clean_column :: "pystate \<Rightarrow> ndarray \<Rightarrow> nat \<Rightarrow> real list" where
  "clean_column st a i = not_nan (column st a i)"

subsection \<open>Labels\<close>

text \<open>\<^verbatim>\<open>str(n)\<close> of a natural number.\<close>

fun str_nat :: "nat \<Rightarrow> string" where
  "str_nat n =
     (if n < 10 then [''0123456789'' ! n]
      else str_nat (n div 10) @ [''0123456789'' ! (n mod 10)])"

declare str_nat.simps [simp del]

definition py_index :: "'a list \<Rightarrow> nat \<Rightarrow> error + 'a" where
  "py_index l i = (if i < length l then Inr (l ! i) else Inl IndexError)"

text \<open>Lines 133-139.\<close>

definition handle_labels :: "nat \<Rightarrow> string list \<Rightarrow> string list" where
  "handle_labels i ls =
     (if length ls > i \<and> ls ! i \<noteq> [] then ls
      else if length ls > i then ls[i := str_nat (i + 1)]
      else ls @ [str_nat (i + 1)])"

subsection \<open>The loop over the columns\<close>

record results =
  m_sd :: "(fl \<times> fl) list"
  ci :: "(fl \<times> fl) list"
  min_max :: "(fl \<times> fl) list"
  quartiles :: "(fl \<times> fl \<times> fl) list"
  normality :: "(fl \<times> fl) list"
  eq_var :: "fl \<times> fl"

record frame = results +
  x_cols :: "real list list"
  nmiss :: nat
  min_len :: nat

text \<open>Lines 110-118.\<close>

definition init_frame :: "nat \<Rightarrow> frame" where
  "init_frame c =
     \<lparr>m_sd = replicate c (NaN, NaN), ci = replicate c (NaN, NaN),
      min_max = replicate c (NaN, NaN), quartiles = replicate c (NaN, NaN, NaN),
      normality = replicate c (NaN, NaN), eq_var = (NaN, NaN),
      x_cols = [], nmiss = 0, min_len = 0\<rparr>"

definition results_of :: "frame \<Rightarrow> results" where
  "results_of l =
     \<lparr>m_sd = m_sd l, ci = ci l, min_max = min_max l, quartiles = quartiles l,
      normality = normality l, eq_var = eq_var l\<rparr>"

definition skip_notice :: "nat \<Rightarrow> event" where
  "skip_notice i = Print ''Skipping column %d, only missing data'' [D (i + 1)]"

text \<open>Lines 142-145: the label is read before \<^verbatim>\<open>plot1var\<close> is called.\<close>

definition plot_column :: "libs \<Rightarrow> int \<Rightarrow> nat \<Rightarrow> string list \<Rightarrow> error + unit" where
  "plot_column lib shw i ls =
     (if shw > 1 \<and> plt lib then
        (case py_index ls i of
           Inl e \<Rightarrow> Inl e
         | Inr lb \<Rightarrow> (case render lib (Plot1var i lb) of Some e \<Rightarrow> Inl e | None \<Rightarrow> Inr ()))
      else Inr ())"

text \<open>One iteration of the loop of lines 120-145, for column \<open>i\<close>; \<open>v\<close> is \<^verbatim>\<open>x[i]\<close>,
  the array appended in this iteration, \<open>lab\<close> the address of the label list.\<close>

definition loop_body ::
  "libs \<Rightarrow> ndarray \<Rightarrow> addr \<Rightarrow> int \<Rightarrow> nat \<Rightarrow> frame \<Rightarrow> pystate \<Rightarrow> (error + frame) \<times> pystate" where
  "loop_body lib d lab shw i l st =
     (let v = clean_column st d i;
          l1 = l\<lparr>x_cols := x_cols l @ [v], nmiss := nmiss l + (nrows d - length v)\<rparr>
      in if length v = 0 then (Inr l1, emit (skip_notice i) st)
         else
           (let l2 = (if length v > 2 then l1\<lparr>min_len := min_len l1 + 1\<rparr> else l1);
                st1 = st\<lparr>lists := (lists st)(lab := handle_labels i (lists st lab))\<rparr>
            in case summary lib v of
                 Inl e \<Rightarrow> (Inl e, st1)
               | Inr (a, b, c, q, n) \<Rightarrow>
                   (case plot_column lib shw i (lists st1 lab) of
                      Inl e \<Rightarrow> (Inl e, st1)
                    | Inr u \<Rightarrow>
                        (Inr (l2\<lparr>m_sd := (m_sd l2)[i := a], ci := (ci l2)[i := b],
                                 min_max := (min_max l2)[i := c],
                                 quartiles := (quartiles l2)[i := q],
                                 normality := (normality l2)[i := n]\<rparr>), st1))))"

fun columns_loop ::
  "libs \<Rightarrow> ndarray \<Rightarrow> addr \<Rightarrow> int \<Rightarrow> nat list \<Rightarrow> frame \<Rightarrow> pystate \<Rightarrow> (error + frame) \<times> pystate" where
  "columns_loop lib d lab shw [] l st = (Inr l, st)"
| "columns_loop lib d lab shw (i # is) l st =
     (case loop_body lib d lab shw i l st of
        (Inl e, st') \<Rightarrow> (Inl e, st')
      | (Inr l', st') \<Rightarrow> columns_loop lib d lab shw is l' st')"

text \<open>Lines 148-153.\<close>

function remove_empty :: "nat \<Rightarrow> real list list \<Rightarrow> real list list" where
  "remove_empty i xs =
     (if i < length xs then
        (if length (xs ! i) = 0 then remove_empty i (take i xs @ drop (Suc i) xs)
         else remove_empty (Suc i) xs)
      else xs)"
  by pat_completeness auto
termination
  by (relation "measure (\<lambda>(i, xs). length xs - i)") auto

declare remove_empty.simps [simp del]

text \<open>Lines 156-165.\<close>

definition variance_test :: "libs \<Rightarrow> frame \<Rightarrow> pystate \<Rightarrow> frame \<times> pystate" where
  "variance_test lib l st =
     (if length (x_cols l) > 1 \<and> min_len l > 1 then
        (if all_gt (normality l) (5 / 100)
         then (l\<lparr>eq_var := bartlett lib (x_cols l)\<rparr>, emit (Bartlett (x_cols l)) st)
         else (l\<lparr>eq_var := levene_median lib (x_cols l)\<rparr>, emit (Levene (x_cols l)) st))
      else (l, st))"

text \<open>Lines 167-172.\<close>

definition summary_plots :: "libs \<Rightarrow> int \<Rightarrow> nat \<Rightarrow> error + unit" where
  "summary_plots lib shw c =
     (if shw \<noteq> 0 \<and> plt lib then
        (if c > 1 then
           (case render lib Plotallvar of
              Some e \<Rightarrow> Inl e
            | None \<Rightarrow> (case render lib Scatterplot of Some e \<Rightarrow> Inl e | None \<Rightarrow> Inr ()))
         else Inr ())
      else Inr ())"

subsection \<open>statprint\<close>

text \<open>What a statement prints, and the exception that ends it, if any.\<close>

type_synonym out = "event list \<times> error option"

definition say :: "string \<Rightarrow> fmt_arg list \<Rightarrow> out" where
  "say fmt as = ([Print fmt as], None)"

text \<open>\<^verbatim>\<open>for i in range(ncol): print(fmt % (labels[i], rows[i, 0], ...))\<close>.\<close>

fun for_rows ::
  "string \<Rightarrow> ('r \<Rightarrow> fmt_arg list) \<Rightarrow> string list \<Rightarrow> 'r list \<Rightarrow> nat list \<Rightarrow> out" where
  "for_rows fmt cells ls rows [] = ([], None)"
| "for_rows fmt cells ls rows (i # is) =
     (case py_index ls i of
        Inl e \<Rightarrow> ([], Some e)
      | Inr lb \<Rightarrow>
          (case py_index rows i of
             Inl e \<Rightarrow> ([], Some e)
           | Inr r \<Rightarrow>
               (Print fmt (S lb # cells r) # fst (for_rows fmt cells ls rows is),
                snd (for_rows fmt cells ls rows is))))"

text \<open>Statements in sequence, up to the first exception.\<close>

fun run :: "out list \<Rightarrow> out" where
  "run [] = ([], None)"
| "run ((evs, Some e) # rest) = (evs, Some e)"
| "run ((evs, None) # rest) = (evs @ fst (run rest), snd (run rest))"

definition sep :: string where
  "sep = replicate 59 (CHR ''-'')"

definition pair_cells :: "fl \<times> fl \<Rightarrow> fmt_arg list" where
  "pair_cells r = [F (fst r), F (snd r)]"

definition triple_cells :: "fl \<times> fl \<times> fl \<Rightarrow> fmt_arg list" where
  "triple_cells r = [F (fst r), F (fst (snd r)), F (snd (snd r))]"

text \<open>Lines 344-392. The strings of lines 351-353 contain their \<^verbatim>\<open>%\<close> operator and
  are printed as they are.\<close>

definition statprint ::
  "results \<Rightarrow> string list \<Rightarrow> real \<Rightarrow> nat \<Rightarrow> nat \<Rightarrow> nat \<Rightarrow> nat \<Rightarrow> out" where
  "statprint r ls alpha nrow ncol nmis nx =
     run ([say sep [],
           say (''Descriptive statistics for data (%d %s, %d %s)' ''
                @ ''          % (nrow, str_row, ncol, str_col) '') [],
           say ''%d missing values' % nmiss'' [],
           say sep [],
           say ''%-10s %15s %15s'' [S ''Variable'', S ''Mean'', S ''STD''],
           say sep [],
           for_rows ''%-10s %15f %15f'' pair_cells ls (m_sd r) [0..<ncol],
           say sep [],
           say ''%s'' [S ''95% confidence interval with unknown population STD''],
           say ''%-10s %15s %15s'' [S ''Variable'', S ''Lower'', S ''Upper''],
           say sep [],
           for_rows ''%-10s %15f %15f'' pair_cells ls (ci r) [0..<ncol],
           say sep [],
           say ''%-10s %15s %15s'' [S ''Variable'', S ''Minimum'', S ''Maximum''],
           say sep [],
           for_rows ''%-10s %15f %15f'' pair_cells ls (min_max r) [0..<ncol],
           say sep [],
           say ''%-10s %15s %15s %15s''
             [S ''Variable'', S ''Median'', S ''25th percent.'', S ''75th percent.''],
           say sep [],
           for_rows ''%-10s %15f %15f %15f'' triple_cells ls (quartiles r) [0..<ncol],
           say sep [],
           say ''%s'' [S ''Shapiro-Wilk's test for normality''],
           say ''%-10s %15s %15s'' [S ''Variable'', S ''W statistic'', S ''p value''],
           say sep [],
           for_rows ''%-10s %15f %15f'' pair_cells ls (normality r) [0..<ncol],
           say sep []]
          @ (if nx > 1 then
               [say (if all_gt (normality r) alpha
                     then ''Barlett's test for equality of variances''
                     else ''Levene's test for equality of variances'') [],
                say ''%26s %15s'' [S ''t statistic'', S ''p value''],
                say sep [],
                say ''%26f %15f'' [F (fst (eq_var r)), F (snd (eq_var r))],
                say sep []]
             else []))"

subsection \<open>statdesc\<close>

text \<open>Lines 102-108: the array, viewed as columns, with the numeric missing-value
  code replaced.\<close>

definition normalize :: "data_arg \<Rightarrow> missing_arg \<Rightarrow> pystate \<Rightarrow> (error + ndarray) \<times> pystate" where
  "normalize data missing st =
     (case asarray data st of
        (Inl e, st1) \<Rightarrow> (Inl e, st1)
      | (Inr a, st1) \<Rightarrow>
          (case replace_missing missing (as_columns a) st1 of
             (Inl e, st2) \<Rightarrow> (Inl e, st2)
           | (Inr u, st2) \<Rightarrow> (Inr (as_columns a), st2)))"

definition statdesc ::
  "libs \<Rightarrow> data_arg \<Rightarrow> missing_arg \<Rightarrow> labels_arg \<Rightarrow> real \<Rightarrow> int \<Rightarrow> pystate
     \<Rightarrow> (error + results) \<times> pystate" where
  "statdesc lib data missing labels alpha shw st =
     (case normalize data missing st of
        (Inl e, st2) \<Rightarrow> (Inl e, st2)
      | (Inr d, st2) \<Rightarrow>
          (case columns_loop lib d (labels_addr labels) shw [0..<ncols d]
                  (init_frame (ncols d)) st2 of
             (Inl e, st3) \<Rightarrow> (Inl e, st3)
           | (Inr l, st3) \<Rightarrow>
               (let l1 = l\<lparr>x_cols := remove_empty 0 (x_cols l)\<rparr>;
                    l2 = fst (variance_test lib l1 st3);
                    st4 = snd (variance_test lib l1 st3)
                in case summary_plots lib shw (ncols d) of
                     Inl e \<Rightarrow> (Inl e, st4)
                   | Inr u \<Rightarrow>
                       (let pr = statprint (results_of l2) (lists st4 (labels_addr labels))
                                   alpha (nrows d) (ncols d) (nmiss l2) (length (x_cols l2));
                            st5 = st4\<lparr>trace := trace st4 @ fst pr\<rparr>
                        in case snd pr of
                             Some e \<Rightarrow> (Inl e, st5)
                           | None \<Rightarrow> (Inr (results_of l2), st5)))))"

subsection \<open>Notions used to state the properties\<close>

text \<open>The CleanColumns of a call: the arrays \<^verbatim>\<open>x[i]\<close> that the loop extracts, one
  for each column of the normalized data.\<close>

definition clean_columns :: "data_arg \<Rightarrow> missing_arg \<Rightarrow> pystate \<Rightarrow> real list list" where
  "clean_columns data missing st =
     (case normalize data missing st of
        (Inl e, st2) \<Rightarrow> []
      | (Inr d, st2) \<Rightarrow> map (clean_column st2 d) [0..<ncols d])"

text \<open>The Profile of column \<open>i\<close> in the returned aggregates.\<close>

definition profile_at :: "'a results_scheme \<Rightarrow> nat \<Rightarrow> profile" where
  "profile_at r i = (m_sd r ! i, ci r ! i, min_max r ! i, quartiles r ! i, normality r ! i)"

definition undefined_profile :: profile where
  "undefined_profile = ((NaN, NaN), (NaN, NaN), (NaN, NaN), (NaN, NaN, NaN), (NaN, NaN))"

text \<open>The numbers of rows of the five per-column aggregates.\<close>

definition row_counts :: "'a results_scheme \<Rightarrow> nat list" where
  "row_counts r =
     [length (m_sd r), length (ci r), length (min_max r), length (quartiles r),
      length (normality r)]"

text \<open>A call returns when it raises nothing.\<close>

definition returns :: "(error + 'a) \<times> pystate \<Rightarrow> bool" where
  "returns out = (case fst out of Inl e \<Rightarrow> False | Inr r \<Rightarrow> True)"

text \<open>The label list after the loop over the columns with the CleanColumns \<open>cols\<close>:
  the label handling of lines 133-139 runs for the columns that are not skipped.\<close>

definition label_synthesis :: "real list list \<Rightarrow> string list \<Rightarrow> string list" where
  "label_synthesis cols ls =
     foldl (\<lambda>ls' i. handle_labels i ls') ls (filter (\<lambda>i. cols ! i \<noteq> []) [0..<length cols])"

text \<open>The calls of a variance test in a trace.\<close>

fun is_test :: "event \<Rightarrow> bool" where
  "is_test (Print fmt as) = False"
| "is_test (Bartlett xs) = True"
| "is_test (Levene xs) = True"

definition tests_of :: "event list \<Rightarrow> event list" where
  "tests_of tr = filter is_test tr"

text \<open>A fresh interpreter: no array yet, every list object empty (the default of
  \<^verbatim>\<open>labels\<close> is \<^verbatim>\<open>[]\<close> when the function is defined), nothing printed.\<close>

definition fresh_state :: pystate where
  "fresh_state = \<lparr>arrays = (\<lambda>a. []), next_array = 0, lists = (\<lambda>a. []), trace = []\<rparr>"

text \<open>A library instance for the examples: no plotting backend, and fixed answers of
  the scipy functions.\<close>

definition example_libs :: libs where
  "example_libs =
     \<lparr>t_pdf = (\<lambda>x df. 1 / 4), shapiro = (\<lambda>v. (Fin 1, Fin 1)),
      bartlett = (\<lambda>xs. (Fin 1, Fin (1 / 2))), levene_median = (\<lambda>xs. (Fin 2, Fin (1 / 4))),
      plt = False, render = (\<lambda>c. None)\<rparr>"

text \<open>An example call: three rows and four columns; the third column has one value,
  the fourth none; four labels are given.\<close>

definition example_data :: data_arg where
  "example_data =
     PyRows [[Fin 1, Fin 2, Fin 5, NaN], [Fin 1, Fin 2, NaN, NaN], [Fin 1, Fin 2, NaN, NaN]]"

definition example_state :: pystate where
  "example_state = fresh_state\<lparr>lists := (\<lambda>a. [])(Suc 0 := [''a'', ''b'', ''c'', ''d''])\<rparr>"

definition example_results :: results where
  "example_results =
     \<lparr>m_sd = [(Fin 1, Fin 0), (Fin 2, Fin 0), (Fin 5, NaN), (NaN, NaN)],
      ci = [(Fin 1, Fin 1), (Fin 2, Fin 2), (NaN, NaN), (NaN, NaN)],
      min_max = [(Fin 1, Fin 1), (Fin 2, Fin 2), (Fin 5, Fin 5), (NaN, NaN)],
      quartiles = [(Fin 1, Fin 1, Fin 1), (Fin 2, Fin 2, Fin 2), (Fin 5, Fin 5, Fin 5),
                   (NaN, NaN, NaN)],
      normality = [(Fin 1, Fin 1), (Fin 1, Fin 1), (NaN, NaN), (NaN, NaN)],
      eq_var = (Fin 2, Fin (1 / 4))\<rparr>"

text \<open>The frame of the loop after the four columns of the example.\<close>

definition example_frame :: frame where
  "example_frame =
     \<lparr>m_sd = [(Fin 1, Fin 0), (Fin 2, Fin 0), (Fin 5, NaN), (NaN, NaN)],
      ci = [(Fin 1, Fin 1), (Fin 2, Fin 2), (NaN, NaN), (NaN, NaN)],
      min_max = [(Fin 1, Fin 1), (Fin 2, Fin 2), (Fin 5, Fin 5), (NaN, NaN)],
      quartiles = [(Fin 1, Fin 1, Fin 1), (Fin 2, Fin 2, Fin 2), (Fin 5, Fin 5, Fin 5),
                   (NaN, NaN, NaN)],
      normality = [(Fin 1, Fin 1), (Fin 1, Fin 1), (NaN, NaN), (NaN, NaN)],
      eq_var = (NaN, NaN),
      x_cols = [[1, 1, 1], [2, 2, 2], [5], []], nmiss = 5, min_len = 2\<rparr>"

text \<open>A second example call: three rows and two columns without missing values.\<close>

definition example2_data :: data_arg where
  "example2_data = PyRows [[Fin 1, Fin 2], [Fin 1, Fin 2], [Fin 1, Fin 2]]"

definition example2_results :: results where
  "example2_results =
     \<lparr>m_sd = [(Fin 1, Fin 0), (Fin 2, Fin 0)],
      ci = [(Fin 1, Fin 1), (Fin 2, Fin 2)],
      min_max = [(Fin 1, Fin 1), (Fin 2, Fin 2)],
      quartiles = [(Fin 1, Fin 1, Fin 1), (Fin 2, Fin 2, Fin 2)],
      normality = [(Fin 1, Fin 1), (Fin 1, Fin 1)],
      eq_var = (Fin 1, Fin (1 / 2))\<rparr>"

definition example2_frame :: frame where
  "example2_frame =
     \<lparr>m_sd = [(Fin 1, Fin 0), (Fin 2, Fin 0)],
      ci = [(Fin 1, Fin 1), (Fin 2, Fin 2)],
      min_max = [(Fin 1, Fin 1), (Fin 2, Fin 2)],
      quartiles = [(Fin 1, Fin 1, Fin 1), (Fin 2, Fin 2, Fin 2)],
      normality = [(Fin 1, Fin 1), (Fin 1, Fin 1)],
      eq_var = (NaN, NaN),
      x_cols = [[1, 1, 1], [2, 2, 2]], nmiss = 0, min_len = 2\<rparr>"

section \<open>Invariants of the call\<close>

subsection \<open>One iteration\<close>

lemma clean_column_arrays:
  "arrays st' = arrays st \<Longrightarrow> clean_column st' d i = clean_column st d i"
  by (simp add: clean_column_def column_def)

lemma tests_of_append [simp]: "tests_of (xs @ ys) = tests_of xs @ tests_of ys"
  by (simp add: tests_of_def)

lemma tests_of_Nil [simp]: "tests_of [] = []"
  by (simp add: tests_of_def)

lemma tests_of_skip [simp]: "tests_of [skip_notice i] = []"
  by (simp add: tests_of_def skip_notice_def)

lemma loop_body_arrays: "arrays (snd (loop_body lib d lab shw i l st)) = arrays st"
  by (simp add: loop_body_def Let_def emit_def split: sum.split prod.split)

lemma loop_body_next: "next_array (snd (loop_body lib d lab shw i l st)) = next_array st"
  by (simp add: loop_body_def Let_def emit_def split: sum.split prod.split)

lemma loop_body_tests: "tests_of (trace (snd (loop_body lib d lab shw i l st))) = tests_of (trace st)"
  by (simp add: loop_body_def Let_def emit_def split: sum.split prod.split)

lemma loop_body_lists:
  "lists (snd (loop_body lib d lab shw i l st)) =
     (if clean_column st d i = [] then lists st
      else (lists st)(lab := handle_labels i (lists st lab)))"
  by (simp add: loop_body_def Let_def emit_def split: sum.split prod.split)

lemma loop_body_Inr:
  assumes "loop_body lib d lab shw i l st = (Inr l', st')"
  shows "x_cols l' = x_cols l @ [clean_column st d i]"
    and "min_len l' = min_len l + (if 2 < length (clean_column st d i) then 1 else 0)"
    and "nmiss l' = nmiss l + (nrows d - length (clean_column st d i))"
    and "eq_var l' = eq_var l"
    and "clean_column st d i = [] \<Longrightarrow>
           m_sd l' = m_sd l \<and> ci l' = ci l \<and> min_max l' = min_max l \<and>
           quartiles l' = quartiles l \<and> normality l' = normality l \<and>
           trace st' = trace st @ [skip_notice i]"
    and "clean_column st d i \<noteq> [] \<Longrightarrow>
           (\<exists>a b c q n. summary lib (clean_column st d i) = Inr (a, b, c, q, n) \<and>
              m_sd l' = (m_sd l)[i := a] \<and> ci l' = (ci l)[i := b] \<and>
              min_max l' = (min_max l)[i := c] \<and> quartiles l' = (quartiles l)[i := q] \<and>
              normality l' = (normality l)[i := n]) \<and> trace st' = trace st"
  using assms
  by (auto simp: loop_body_def Let_def emit_def split: sum.splits prod.splits if_splits)


subsection \<open>The loop\<close>


lemma columns_loop_next: "next_array (snd (columns_loop lib d lab shw is l st)) = next_array st"
proof (induction "is" arbitrary: l st)
  case Nil
  show ?case by simp
next
  case (Cons i "is")
  obtain r st' where b: "loop_body lib d lab shw i l st = (r, st')"
    by (cases "loop_body lib d lab shw i l st")
  have a: "next_array st' = next_array st"
    using loop_body_next [of lib d lab shw i l st] b by simp
  show ?case
    using Cons.IH [of _ st'] a b by (cases r) simp_all
qed

lemma columns_loop_tests:
  "tests_of (trace (snd (columns_loop lib d lab shw is l st))) = tests_of (trace st)"
proof (induction "is" arbitrary: l st)
  case Nil
  show ?case by simp
next
  case (Cons i "is")
  obtain r st' where b: "loop_body lib d lab shw i l st = (r, st')"
    by (cases "loop_body lib d lab shw i l st")
  have a: "tests_of (trace st') = tests_of (trace st)"
    using loop_body_tests [of lib d lab shw i l st] b by simp
  show ?case
    using Cons.IH [of _ st'] a b by (cases r) simp_all
qed


lemma columns_loop_Inr:
  assumes "columns_loop lib d lab shw is l st = (Inr l', st')"
  shows "x_cols l' = x_cols l @ map (clean_column st d) is"
    and "min_len l' = min_len l + length (filter (\<lambda>i. 2 < length (clean_column st d i)) is)"
    and "eq_var l' = eq_var l"
    and "row_counts l' = row_counts l"
    and "lists st' lab =
           foldl (\<lambda>ls i. handle_labels i ls) (lists st lab)
             (filter (\<lambda>i. clean_column st d i \<noteq> []) is)"
  using assms
proof (induction "is" arbitrary: l st)
  case Nil
  {
    case 1 then show ?case by simp
  next
    case 2 then show ?case by simp
  next
    case 3 then show ?case by simp
  next
    case 4 then show ?case by simp
  next
    case 5 then show ?case by simp
  }
next
  case (Cons i "is")
  {
    case 1
    then obtain l1 s1 where b: "loop_body lib d lab shw i l st = (Inr l1, s1)"
      and r: "columns_loop lib d lab shw is l1 s1 = (Inr l', st')"
      by (auto split: sum.splits prod.splits)
    have a: "arrays s1 = arrays st"
      using loop_body_arrays [of lib d lab shw i l st] b by simp
    show ?case
      using Cons.IH(1) [OF r] loop_body_Inr(1) [OF b] by (simp add: clean_column_arrays [OF a])
  next
    case 2
    then obtain l1 s1 where b: "loop_body lib d lab shw i l st = (Inr l1, s1)"
      and r: "columns_loop lib d lab shw is l1 s1 = (Inr l', st')"
      by (auto split: sum.splits prod.splits)
    have a: "arrays s1 = arrays st"
      using loop_body_arrays [of lib d lab shw i l st] b by simp
    show ?case
      using Cons.IH(2) [OF r] loop_body_Inr(2) [OF b] by (simp add: clean_column_arrays [OF a])
  next
    case 3
    then obtain l1 s1 where b: "loop_body lib d lab shw i l st = (Inr l1, s1)"
      and r: "columns_loop lib d lab shw is l1 s1 = (Inr l', st')"
      by (auto split: sum.splits prod.splits)
    show ?case
      using Cons.IH(3) [OF r] loop_body_Inr(4) [OF b] by simp
  next
    case 4
    then obtain l1 s1 where b: "loop_body lib d lab shw i l st = (Inr l1, s1)"
      and r: "columns_loop lib d lab shw is l1 s1 = (Inr l', st')"
      by (auto split: sum.splits prod.splits)
    have "row_counts l1 = row_counts l"
      using loop_body_Inr(5,6) [OF b]
      by (cases "clean_column st d i = []") (auto simp: row_counts_def)
    then show ?case
      using Cons.IH(4) [OF r] by simp
  next
    case 5
    then obtain l1 s1 where b: "loop_body lib d lab shw i l st = (Inr l1, s1)"
      and r: "columns_loop lib d lab shw is l1 s1 = (Inr l', st')"
      by (auto split: sum.splits prod.splits)
    have a: "arrays s1 = arrays st"
      using loop_body_arrays [of lib d lab shw i l st] b by simp
    have "lists s1 lab =
            (if clean_column st d i = [] then lists st lab else handle_labels i (lists st lab))"
      using loop_body_lists [of lib d lab shw i l st] b by simp
    then show ?case
      using Cons.IH(5) [OF r] by (simp add: clean_column_arrays [OF a])
  }
qed


lemma loop_body_rows_other:
  assumes "loop_body lib d lab shw i l st = (Inr l', st')"
    and "j \<noteq> i \<or> clean_column st d i = []"
  shows "profile_at l' j = profile_at l j"
proof (cases "clean_column st d i = []")
  case True
  then show ?thesis
    using loop_body_Inr(5) [OF assms(1)] by (simp add: profile_at_def)
next
  case False
  then have "j \<noteq> i" using assms(2) by simp
  then show ?thesis
    using loop_body_Inr(6) [OF assms(1) False] by (auto simp: profile_at_def)
qed

lemma loop_body_row_counts:
  assumes "loop_body lib d lab shw i l st = (Inr l', st')"
  shows "row_counts l' = row_counts l"
  using loop_body_Inr(5,6) [OF assms]
  by (cases "clean_column st d i = []") (auto simp: row_counts_def)

lemma loop_body_rows_set:
  assumes "loop_body lib d lab shw i l st = (Inr l', st')"
    and "clean_column st d i \<noteq> []"
    and "list_all (\<lambda>n. i < n) (row_counts l)"
  shows "summary lib (clean_column st d i) = Inr (profile_at l' i)"
  using loop_body_Inr(6) [OF assms(1,2)] assms(3)
  by (auto simp: profile_at_def row_counts_def)

lemma columns_loop_rows_other:
  assumes "columns_loop lib d lab shw is l st = (Inr l', st')"
    and "j \<notin> set is \<or> clean_column st d j = []"
  shows "profile_at l' j = profile_at l j"
  using assms
proof (induction "is" arbitrary: l st)
  case Nil
  then show ?case by simp
next
  case (Cons i "is")
  from Cons.prems(1) obtain l1 s1 where b: "loop_body lib d lab shw i l st = (Inr l1, s1)"
    and r: "columns_loop lib d lab shw is l1 s1 = (Inr l', st')"
    by (auto split: sum.splits prod.splits)
  have a: "arrays s1 = arrays st"
    using loop_body_arrays [of lib d lab shw i l st] b by simp
  have j: "j \<notin> set is \<or> clean_column s1 d j = []"
    using Cons.prems(2) by (auto simp: clean_column_arrays [OF a])
  have "j \<noteq> i \<or> clean_column st d i = []"
    using Cons.prems(2) by auto
  then have "profile_at l1 j = profile_at l j"
    by (rule loop_body_rows_other [OF b])
  then show ?case
    using Cons.IH [OF r j] by simp
qed

lemma columns_loop_rows_set:
  assumes "columns_loop lib d lab shw is l st = (Inr l', st')"
    and "i \<in> set is" and "distinct is"
    and "clean_column st d i \<noteq> []"
    and "list_all (\<lambda>n. i < n) (row_counts l)"
  shows "summary lib (clean_column st d i) = Inr (profile_at l' i)"
  using assms
proof (induction "is" arbitrary: l st)
  case Nil
  then show ?case by simp
next
  case (Cons k ks)
  from Cons.prems(1) obtain l1 s1 where b: "loop_body lib d lab shw k l st = (Inr l1, s1)"
    and r: "columns_loop lib d lab shw ks l1 s1 = (Inr l', st')"
    by (auto split: sum.splits prod.splits)
  have a: "arrays s1 = arrays st"
    using loop_body_arrays [of lib d lab shw k l st] b by simp
  show ?case
  proof (cases "i = k")
    case True
    then have "i \<notin> set ks" using Cons.prems(3) by simp
    then have "profile_at l' i = profile_at l1 i"
      using columns_loop_rows_other [OF r] by blast
    moreover have "summary lib (clean_column st d i) = Inr (profile_at l1 i)"
      using loop_body_rows_set [OF b] Cons.prems(4,5) True by simp
    ultimately show ?thesis by simp
  next
    case False
    then have m: "i \<in> set ks" using Cons.prems(2) by simp
    have d: "distinct ks" using Cons.prems(3) by simp
    have c: "clean_column s1 d i \<noteq> []"
      using Cons.prems(4) by (simp add: clean_column_arrays [OF a])
    have n: "list_all (\<lambda>n. i < n) (row_counts l1)"
      using Cons.prems(5) loop_body_row_counts [OF b] by simp
    show ?thesis
      using Cons.IH [OF r m d c n] by (simp add: clean_column_arrays [OF a])
  qed
qed

subsection \<open>Removing the empty arrays\<close>

lemma remove_empty_filter:
  "remove_empty i xs = take i xs @ filter (\<lambda>v. v \<noteq> []) (drop i xs)"
proof (induction i xs rule: remove_empty.induct)
  case (1 i xs)
  show ?case
  proof (cases "i < length xs")
    case False
    then show ?thesis by (simp add: remove_empty.simps [of i xs])
  next
    case True
    note lt = True
    show ?thesis
    proof (cases "length (xs ! i) = 0")
      case True
      have "remove_empty i xs = remove_empty i (take i xs @ drop (Suc i) xs)"
        using lt True by (simp add: remove_empty.simps [of i xs])
      also have "\<dots> = take i xs @ filter (\<lambda>v. v \<noteq> []) (drop (Suc i) xs)"
        using "1.IH"(1) [OF lt True] lt by (simp add: min_def)
      also have "\<dots> = take i xs @ filter (\<lambda>v. v \<noteq> []) (drop i xs)"
        using lt True by (simp add: Cons_nth_drop_Suc [symmetric])
      finally show ?thesis .
    next
      case False
      have "remove_empty i xs = remove_empty (Suc i) xs"
        using lt False by (simp add: remove_empty.simps [of i xs])
      also have "\<dots> = take (Suc i) xs @ filter (\<lambda>v. v \<noteq> []) (drop (Suc i) xs)"
        using "1.IH"(2) [OF lt False] .
      also have "\<dots> = take i xs @ filter (\<lambda>v. v \<noteq> []) (drop i xs)"
        using lt False by (simp add: Cons_nth_drop_Suc [symmetric] take_Suc_conv_app_nth)
      finally show ?thesis .
    qed
  qed
qed

lemma remove_empty_0: "remove_empty 0 xs = filter (\<lambda>v. v \<noteq> []) xs"
  by (simp add: remove_empty_filter)

subsection \<open>statprint prints only\<close>

lemma for_rows_tests: "tests_of (fst (for_rows fmt cells ls rows is)) = []"
  by (induction "is") (auto simp: tests_of_def split: sum.splits)

lemma run_tests:
  "list_all (\<lambda>out. tests_of (fst out) = []) outs \<Longrightarrow> tests_of (fst (run outs)) = []"
  by (induction outs rule: run.induct) simp_all

lemma say_tests: "tests_of (fst (say fmt as)) = []"
  by (simp add: say_def tests_of_def)

lemma statprint_tests: "tests_of (fst (statprint r ls alpha nrow ncol nmis nx)) = []"
  unfolding statprint_def
  by (rule run_tests) (simp add: say_tests for_rows_tests)


subsection \<open>The whole call\<close>

lemma asarray_frame:
  "lists (snd (asarray data st)) = lists st"
  "trace (snd (asarray data st)) = trace st"
  by (simp_all add: asarray_def rows_array_def alloc_def split: data_arg.split list.split)

lemma replace_missing_frame:
  "lists (snd (replace_missing m a st)) = lists st"
  "trace (snd (replace_missing m a st)) = trace st"
  "next_array (snd (replace_missing m a st)) = next_array st"
  by (simp_all add: replace_missing_def split: missing_arg.split fl.split dtype.split)

lemma normalize_lists: "lists (snd (normalize data missing st)) = lists st"
proof -
  obtain r st1 where a: "asarray data st = (r, st1)"
    by (cases "asarray data st")
  have 1: "lists st1 = lists st"
    using asarray_frame(1) [of data st] a by simp
  show ?thesis
  proof (cases r)
    case (Inl e)
    then show ?thesis using a 1 by (simp add: normalize_def)
  next
    case (Inr arr)
    obtain u st2 where m: "replace_missing missing (as_columns arr) st1 = (u, st2)"
      by (cases "replace_missing missing (as_columns arr) st1")
    have "lists st2 = lists st1"
      using replace_missing_frame(1) [of missing "as_columns arr" st1] m by simp
    then show ?thesis
      using a Inr m 1 by (cases u) (simp_all add: normalize_def)
  qed
qed

lemma normalize_trace: "trace (snd (normalize data missing st)) = trace st"
proof -
  obtain r st1 where a: "asarray data st = (r, st1)"
    by (cases "asarray data st")
  have 1: "trace st1 = trace st"
    using asarray_frame(2) [of data st] a by simp
  show ?thesis
  proof (cases r)
    case (Inl e)
    then show ?thesis using a 1 by (simp add: normalize_def)
  next
    case (Inr arr)
    obtain u st2 where m: "replace_missing missing (as_columns arr) st1 = (u, st2)"
      by (cases "replace_missing missing (as_columns arr) st1")
    have "trace st2 = trace st1"
      using replace_missing_frame(2) [of missing "as_columns arr" st1] m by simp
    then show ?thesis
      using a Inr m 1 by (cases u) (simp_all add: normalize_def)
  qed
qed

lemma variance_test_frame:
  "lists (snd (variance_test lib l st)) = lists st"
  "arrays (snd (variance_test lib l st)) = arrays st"
  "profile_at (fst (variance_test lib l st)) i = profile_at l i"
  "row_counts (fst (variance_test lib l st)) = row_counts l"
  "x_cols (fst (variance_test lib l st)) = x_cols l"
  "normality (fst (variance_test lib l st)) = normality l"
  by (simp_all add: variance_test_def emit_def profile_at_def row_counts_def)

lemma results_of_frame:
  "profile_at (results_of l) i = profile_at l i"
  "row_counts (results_of l) = row_counts l"
  "normality (results_of l) = normality l"
  "eq_var (results_of l) = eq_var l"
  by (simp_all add: results_of_def profile_at_def row_counts_def)

lemma init_frame_rows:
  "row_counts (init_frame c) = [c, c, c, c, c]"
  "i < c \<Longrightarrow> profile_at (init_frame c) i = undefined_profile"
  "eq_var (init_frame c) = (NaN, NaN)"
  "x_cols (init_frame c) = []"
  "min_len (init_frame c) = 0"
  by (simp_all add: init_frame_def row_counts_def profile_at_def undefined_profile_def)

lemma x_cols_update_frame:
  "profile_at (l\<lparr>x_cols := x\<rparr>) i = profile_at l i"
  "row_counts (l\<lparr>x_cols := x\<rparr>) = row_counts l"
  by (simp_all add: profile_at_def row_counts_def)

text \<open>What a call that returns has done.\<close>

lemma statdesc_Inr:
  assumes "fst (statdesc lib data missing labels alpha shw st) = Inr r"
  obtains d st2 l st3 where
    "normalize data missing st = (Inr d, st2)"
    "columns_loop lib d (labels_addr labels) shw [0..<ncols d] (init_frame (ncols d)) st2
       = (Inr l, st3)"
    "r = results_of (fst (variance_test lib (l\<lparr>x_cols := remove_empty 0 (x_cols l)\<rparr>) st3))"
    "tests_of (trace (snd (statdesc lib data missing labels alpha shw st))) =
       tests_of (trace (snd (variance_test lib (l\<lparr>x_cols := remove_empty 0 (x_cols l)\<rparr>) st3)))"
    "lists (snd (statdesc lib data missing labels alpha shw st)) = lists st3"
proof -
  obtain n st2 where n: "normalize data missing st = (n, st2)"
    by (cases "normalize data missing st")
  obtain d where d: "n = Inr d"
    using assms n by (cases n) (simp_all add: statdesc_def)
  obtain c st3 where c: "columns_loop lib d (labels_addr labels) shw [0..<ncols d]
       (init_frame (ncols d)) st2 = (c, st3)"
    by (cases "columns_loop lib d (labels_addr labels) shw [0..<ncols d]
       (init_frame (ncols d)) st2")
  obtain l where l: "c = Inr l"
    using assms n d c by (cases c) (simp_all add: statdesc_def)
  let ?v = "variance_test lib (l\<lparr>x_cols := remove_empty 0 (x_cols l)\<rparr>) st3"
  have "r = results_of (fst ?v)"
    using assms n d c l
    by (simp add: statdesc_def Let_def split: sum.splits option.splits)
  moreover have "tests_of (trace (snd (statdesc lib data missing labels alpha shw st))) =
       tests_of (trace (snd ?v))"
    using assms n d c l
    by (simp add: statdesc_def Let_def statprint_tests split: sum.splits option.splits)
  moreover have "lists (snd (statdesc lib data missing labels alpha shw st)) = lists st3"
    using assms n d c l
    by (simp add: statdesc_def Let_def variance_test_frame split: sum.splits option.splits)
  ultimately show ?thesis
    using that n d c l by blast
qed

lemma clean_columns_Inr:
  "normalize data missing st = (Inr d, st2) \<Longrightarrow>
     clean_columns data missing st = map (clean_column st2 d) [0..<ncols d]"
  by (simp add: clean_columns_def)

text \<open>The rows of a call that returns.\<close>

lemma statdesc_rows:
  assumes "fst (statdesc lib data missing labels alpha shw st) = Inr r"
  shows "row_counts r = replicate 5 (length (clean_columns data missing st))"
    and "i < length (clean_columns data missing st) \<Longrightarrow>
           clean_columns data missing st ! i = [] \<Longrightarrow> profile_at r i = undefined_profile"
    and "i < length (clean_columns data missing st) \<Longrightarrow>
           clean_columns data missing st ! i \<noteq> [] \<Longrightarrow>
           summary lib (clean_columns data missing st ! i) = Inr (profile_at r i)"
proof -
  from assms obtain d st2 l st3 where
    n: "normalize data missing st = (Inr d, st2)" and
    c: "columns_loop lib d (labels_addr labels) shw [0..<ncols d] (init_frame (ncols d)) st2
          = (Inr l, st3)" and
    r: "r = results_of (fst (variance_test lib (l\<lparr>x_cols := remove_empty 0 (x_cols l)\<rparr>) st3))"
    by (rule statdesc_Inr)
  have cc: "clean_columns data missing st = map (clean_column st2 d) [0..<ncols d]"
    using n by (rule clean_columns_Inr)
  have p: "profile_at r j = profile_at l j" for j
    by (simp add: r results_of_frame variance_test_frame x_cols_update_frame)
  have "row_counts r = row_counts l"
    by (simp add: r results_of_frame variance_test_frame x_cols_update_frame)
  then show "row_counts r = replicate 5 (length (clean_columns data missing st))"
    using columns_loop_Inr(4) [OF c]
    by (simp add: cc init_frame_rows numeral_eq_Suc)
  {
    assume i: "i < length (clean_columns data missing st)"
      and e: "clean_columns data missing st ! i = []"
    have "clean_column st2 d i = []" using i e by (simp add: cc)
    then have "profile_at l i = profile_at (init_frame (ncols d)) i"
      using columns_loop_rows_other [OF c] by blast
    then show "profile_at r i = undefined_profile"
      using i by (simp add: p cc init_frame_rows)
  }
  {
    assume i: "i < length (clean_columns data missing st)"
      and e: "clean_columns data missing st ! i \<noteq> []"
    have 1: "i \<in> set [0..<ncols d]" using i by (simp add: cc)
    have 2: "clean_column st2 d i \<noteq> []" using i e by (simp add: cc)
    have 3: "list_all (\<lambda>n. i < n) (row_counts (init_frame (ncols d)))"
      using i by (simp add: cc init_frame_rows)
    have "summary lib (clean_column st2 d i) = Inr (profile_at l i)"
      using columns_loop_rows_set [OF c 1 _ 2 3] by simp
    then show "summary lib (clean_columns data missing st ! i) = Inr (profile_at r i)"
      using i by (simp add: p cc)
  }
qed

text \<open>The variance test of a call that returns.\<close>

lemma statdesc_variance:
  assumes "fst (statdesc lib data missing labels alpha shw st) = Inr r"
  shows "\<exists>l. r = results_of (fst (variance_test lib l st')) \<and>
           x_cols l = filter (\<lambda>v. v \<noteq> []) (clean_columns data missing st) \<and>
           min_len l = length (filter (\<lambda>v. 2 < length v) (clean_columns data missing st)) \<and>
           eq_var l = (NaN, NaN) \<and> normality l = normality r \<and>
           tests_of (trace (snd (statdesc lib data missing labels alpha shw st))) =
             tests_of (trace st) @ tests_of (trace (snd (variance_test lib l (st'\<lparr>trace := []\<rparr>))))"
proof -
  from assms obtain d st2 l st3 where
    n: "normalize data missing st = (Inr d, st2)" and
    c: "columns_loop lib d (labels_addr labels) shw [0..<ncols d] (init_frame (ncols d)) st2
          = (Inr l, st3)" and
    r: "r = results_of (fst (variance_test lib (l\<lparr>x_cols := remove_empty 0 (x_cols l)\<rparr>) st3))" and
    t: "tests_of (trace (snd (statdesc lib data missing labels alpha shw st))) =
       tests_of (trace (snd (variance_test lib (l\<lparr>x_cols := remove_empty 0 (x_cols l)\<rparr>) st3)))"
    by (rule statdesc_Inr)
  let ?l = "l\<lparr>x_cols := remove_empty 0 (x_cols l)\<rparr>"
  have cc: "clean_columns data missing st = map (clean_column st2 d) [0..<ncols d]"
    using n by (rule clean_columns_Inr)
  have t3: "tests_of (trace st3) = tests_of (trace st)"
    using columns_loop_tests [of lib d "labels_addr labels" shw "[0..<ncols d]"
        "init_frame (ncols d)" st2] c normalize_trace [of data missing st] n by simp
  have 1: "r = results_of (fst (variance_test lib ?l st'))"
    by (simp add: r variance_test_def)
  have 2: "x_cols ?l = filter (\<lambda>v. v \<noteq> []) (clean_columns data missing st)"
    using columns_loop_Inr(1) [OF c] by (simp add: cc remove_empty_0 init_frame_rows)
  have 3: "min_len ?l = length (filter (\<lambda>v. 2 < length v) (clean_columns data missing st))"
    using columns_loop_Inr(2) [OF c] by (simp add: cc init_frame_rows filter_map comp_def)
  have 4: "eq_var ?l = (NaN, NaN)"
    using columns_loop_Inr(3) [OF c] by (simp add: init_frame_rows)
  have 5: "normality ?l = normality r"
    by (simp add: r results_of_frame variance_test_frame)
  have 6: "tests_of (trace (snd (statdesc lib data missing labels alpha shw st))) =
             tests_of (trace st) @ tests_of (trace (snd (variance_test lib ?l (st'\<lparr>trace := []\<rparr>))))"
    by (simp add: t variance_test_def emit_def t3)
  show ?thesis
    using 1 2 3 4 5 6 by blast
qed

lemma summary_single:
  "summary lib [v] = Inr ((Fin v, NaN), (NaN, NaN), (Fin v, Fin v), (Fin v, Fin v, Fin v), (NaN, NaN))"
  by (simp add: summary_def np_mean_def np_std_ddof1_def np_median_def np_percentile_def Let_def)

lemma summary_short_normality:
  "length v \<le> 2 \<Longrightarrow> summary lib v = Inr p \<Longrightarrow> snd (snd (snd (snd p))) = (NaN, NaN)"
  by (auto simp: summary_def Let_def split: if_splits)

lemma statdesc_eq_var:
  assumes "fst (statdesc lib data missing labels alpha shw st) = Inr r"
  shows "(if 1 < length (filter (\<lambda>v. v \<noteq> []) (clean_columns data missing st)) \<and>
             1 < length (filter (\<lambda>v. 2 < length v) (clean_columns data missing st))
          then (tests_of (trace (snd (statdesc lib data missing labels alpha shw st))) =
                  tests_of (trace st) @ [Bartlett (filter (\<lambda>v. v \<noteq> []) (clean_columns data missing st))] \<and>
                eq_var r = bartlett lib (filter (\<lambda>v. v \<noteq> []) (clean_columns data missing st))) \<or>
               (tests_of (trace (snd (statdesc lib data missing labels alpha shw st))) =
                  tests_of (trace st) @ [Levene (filter (\<lambda>v. v \<noteq> []) (clean_columns data missing st))] \<and>
                eq_var r = levene_median lib (filter (\<lambda>v. v \<noteq> []) (clean_columns data missing st)))
          else tests_of (trace (snd (statdesc lib data missing labels alpha shw st))) = tests_of (trace st) \<and>
               eq_var r = (NaN, NaN))"
proof -
  obtain l where l: "r = results_of (fst (variance_test lib l st))"
    "x_cols l = filter (\<lambda>v. v \<noteq> []) (clean_columns data missing st)"
    "min_len l = length (filter (\<lambda>v. 2 < length v) (clean_columns data missing st))"
    "eq_var l = (NaN, NaN)" "normality l = normality r"
    "tests_of (trace (snd (statdesc lib data missing labels alpha shw st))) =
       tests_of (trace st) @ tests_of (trace (snd (variance_test lib l (st\<lparr>trace := []\<rparr>))))"
    using statdesc_variance [OF assms, of st] by blast
  show ?thesis
    unfolding l(6) l(1)
    by (simp add: variance_test_def emit_def results_of_def tests_of_def l(2,3,4))
qed

lemma statdesc_test_choice:
  assumes "fst (statdesc lib data missing labels alpha shw st) = Inr r"
    and "tests_of (trace (snd (statdesc lib data missing labels alpha shw st))) \<noteq> tests_of (trace st)"
  shows "tests_of (trace (snd (statdesc lib data missing labels alpha shw st))) =
           tests_of (trace st) @
             [if all_gt (normality r) (5 / 100)
              then Bartlett (filter (\<lambda>v. v \<noteq> []) (clean_columns data missing st))
              else Levene (filter (\<lambda>v. v \<noteq> []) (clean_columns data missing st))]"
proof -
  obtain l where l: "r = results_of (fst (variance_test lib l st))"
    "x_cols l = filter (\<lambda>v. v \<noteq> []) (clean_columns data missing st)"
    "min_len l = length (filter (\<lambda>v. 2 < length v) (clean_columns data missing st))"
    "eq_var l = (NaN, NaN)" "normality l = normality r"
    "tests_of (trace (snd (statdesc lib data missing labels alpha shw st))) =
       tests_of (trace st) @ tests_of (trace (snd (variance_test lib l (st\<lparr>trace := []\<rparr>))))"
    using statdesc_variance [OF assms(1), of st] by blast
  show ?thesis
    using assms(2) unfolding l(6)
    by (simp add: variance_test_def emit_def tests_of_def l(2,3,5) split: if_splits)
qed

lemma for_rows_ok:
  "list_all (\<lambda>i. i < length ls \<and> i < length rows) is \<Longrightarrow>
     snd (for_rows fmt cells ls rows is) = None"
  by (induction "is") (simp_all add: py_index_def)

lemma run_ok: "list_all (\<lambda>out. snd out = None) outs \<Longrightarrow> snd (run outs) = None"
  by (induction outs rule: run.induct) simp_all

lemma upt_all_less: "n \<le> a \<Longrightarrow> n \<le> b \<Longrightarrow> list_all (\<lambda>i. i < a \<and> i < b) [0..<n]"
  by (simp add: list_all_iff)

lemma statprint_ok:
  assumes "ncol \<le> length ls" and "list_all (\<lambda>n. ncol \<le> n) (row_counts r)"
  shows "snd (statprint r ls alpha nrow ncol nmis nx) = None"
  unfolding statprint_def
  using assms
  by (intro run_ok) (simp add: say_def for_rows_ok upt_all_less row_counts_def)

lemma statdesc_returns:
  assumes "normalize data missing st = (Inr d, st2)"
    and "columns_loop lib d (labels_addr labels) shw [0..<ncols d] (init_frame (ncols d)) st2
           = (Inr l, st3)"
    and "summary_plots lib shw (ncols d) = Inr ()"
    and "ncols d \<le> length (lists st3 (labels_addr labels))"
  shows "fst (statdesc lib data missing labels alpha shw st) =
           Inr (results_of (fst (variance_test lib (l\<lparr>x_cols := remove_empty 0 (x_cols l)\<rparr>) st3)))"
proof -
  let ?l2 = "fst (variance_test lib (l\<lparr>x_cols := remove_empty 0 (x_cols l)\<rparr>) st3)"
  let ?st4 = "snd (variance_test lib (l\<lparr>x_cols := remove_empty 0 (x_cols l)\<rparr>) st3)"
  have "row_counts (results_of ?l2) = replicate 5 (ncols d)"
    using columns_loop_Inr(4) [OF assms(2)]
    by (simp add: results_of_frame variance_test_frame x_cols_update_frame init_frame_rows
        numeral_eq_Suc)
  then have "list_all (\<lambda>n. ncols d \<le> n) (row_counts (results_of ?l2))"
    by (simp add: numeral_eq_Suc)
  moreover have "ncols d \<le> length (lists ?st4 (labels_addr labels))"
    using assms(4) by (simp add: variance_test_frame)
  ultimately have "snd (statprint (results_of ?l2) (lists ?st4 (labels_addr labels)) alpha
      (nrows d) (ncols d) (nmiss ?l2) (length (x_cols ?l2))) = None"
    by (intro statprint_ok)
  then show ?thesis
    using assms(1,2,3) by (simp add: statdesc_def Let_def)
qed

subsection \<open>The example call\<close>

lemma example_normalize:
  "normalize example_data (MissingStr ''NaN'') example_state =
     (Inr \<lparr>base = 0, shape = Rank2 3 4, dtype = Float64, offset = 0\<rparr>,
      example_state\<lparr>arrays := (\<lambda>a. [])(0 := [Fin 1, Fin 2, Fin 5, NaN, Fin 1, Fin 2, NaN, NaN,
                                               Fin 1, Fin 2, NaN, NaN]),
                     next_array := Suc 0\<rparr>)"
  by (simp add: normalize_def asarray_def rows_array_def alloc_def replace_missing_def in_array_def fresh_state_def
      example_data_def example_state_def)

lemma example_clean_columns:
  "clean_columns example_data (MissingStr ''NaN'') example_state = [[1, 1, 1], [2, 2, 2], [5], []]"
  unfolding clean_columns_def example_normalize
  by (simp add: clean_column_def column_def upt_rec example_state_def fresh_state_def)

lemma summary_constant3:
  "summary example_libs [c, c, c] =
     Inr ((Fin c, Fin 0), (Fin c, Fin c), (Fin c, Fin c), (Fin c, Fin c, Fin c), (Fin 1, Fin 1))"
  by (simp add: summary_def np_mean_def np_std_ddof1_def np_median_def np_percentile_def
      conf_limits_def example_libs_def Let_def)

lemma example_loop:
  "columns_loop example_libs \<lparr>base = 0, shape = Rank2 3 4, dtype = Float64, offset = 0\<rparr> (Suc 0) 0 [0..<4] (init_frame 4)
       (example_state\<lparr>arrays := (\<lambda>a. [])(0 := [Fin 1, Fin 2, Fin 5, NaN, Fin 1, Fin 2, NaN, NaN,
                                               Fin 1, Fin 2, NaN, NaN]),
                     next_array := Suc 0\<rparr>) =
     (Inr example_frame,
      example_state\<lparr>arrays := (\<lambda>a. [])(0 := [Fin 1, Fin 2, Fin 5, NaN, Fin 1, Fin 2, NaN, NaN,
                                               Fin 1, Fin 2, NaN, NaN]),
                     next_array := Suc 0, trace := [skip_notice 3]\<rparr>)"
  by (simp add: loop_body_def clean_column_def column_def summary_constant3 summary_single
      init_frame_def handle_labels_def plot_column_def emit_def Let_def upt_rec
      example_state_def fresh_state_def example_frame_def numeral_eq_Suc)

lemma example_run:
  "fst (statdesc example_libs example_data (MissingStr ''NaN'') (Given (Suc 0)) (5 / 100) 0
         example_state) = Inr example_results"
proof -
  have l: "columns_loop example_libs \<lparr>base = 0, shape = Rank2 3 4, dtype = Float64, offset = 0\<rparr>
       (labels_addr (Given (Suc 0))) 0 [0..<ncols \<lparr>base = 0, shape = Rank2 3 4, dtype = Float64, offset = 0\<rparr>]
       (init_frame (ncols \<lparr>base = 0, shape = Rank2 3 4, dtype = Float64, offset = 0\<rparr>))
       (example_state\<lparr>arrays := (\<lambda>a. [])(0 := [Fin 1, Fin 2, Fin 5, NaN, Fin 1, Fin 2, NaN, NaN,
                                               Fin 1, Fin 2, NaN, NaN]),
                     next_array := Suc 0\<rparr>) =
     (Inr example_frame,
      example_state\<lparr>arrays := (\<lambda>a. [])(0 := [Fin 1, Fin 2, Fin 5, NaN, Fin 1, Fin 2, NaN, NaN,
                                               Fin 1, Fin 2, NaN, NaN]),
                     next_array := Suc 0, trace := [skip_notice 3]\<rparr>)"
    using example_loop by simp
  have p: "summary_plots example_libs 0 (ncols \<lparr>base = 0, shape = Rank2 3 4, dtype = Float64, offset = 0\<rparr>) = Inr ()"
    by (simp add: summary_plots_def)
  have n: "ncols \<lparr>base = 0, shape = Rank2 3 4, dtype = Float64, offset = 0\<rparr> \<le>
      length (lists (example_state\<lparr>arrays := (\<lambda>a. [])(0 := [Fin 1, Fin 2, Fin 5, NaN, Fin 1, Fin 2, NaN, NaN,
                                               Fin 1, Fin 2, NaN, NaN]),
                     next_array := Suc 0, trace := [skip_notice 3]\<rparr>) (labels_addr (Given (Suc 0))))"
    by (simp add: example_state_def)
  have r: "results_of (fst (variance_test example_libs
       (example_frame\<lparr>x_cols := remove_empty 0 (x_cols example_frame)\<rparr>) s)) = example_results" for s
    by (simp add: remove_empty_0 variance_test_def results_of_def all_gt_def example_frame_def
        example_results_def example_libs_def)
  show ?thesis
    using statdesc_returns [OF example_normalize l p n] r by simp
qed

lemma example_state_trace: "tests_of (trace example_state) = []"
  by (simp add: example_state_def fresh_state_def)

lemma example_tests:
  "tests_of (trace (snd (statdesc example_libs example_data (MissingStr ''NaN'') (Given (Suc 0))
       (5 / 100) 0 example_state))) = [Levene [[1, 1, 1], [2, 2, 2], [5]]]"
  using statdesc_eq_var [OF example_run]
  by (simp add: example_clean_columns example_results_def example_libs_def example_state_trace)

lemma fl_gt_iff: "fl_gt v c \<longleftrightarrow> (\<exists>p. v = Fin p \<and> c < p)"
  by (cases v) simp_all

lemma all_gt_iff:
  "all_gt rows c \<longleftrightarrow> (\<forall>i<length rows. \<exists>p. snd (rows ! i) = Fin p \<and> c < p)"
  by (simp add: all_gt_def list_all_length fl_gt_iff)

subsection \<open>The second example call\<close>

lemma example2_normalize:
  "normalize example2_data (MissingStr ''NaN'') example_state =
     (Inr \<lparr>base = 0, shape = Rank2 3 2, dtype = Float64, offset = 0\<rparr>,
      example_state\<lparr>arrays := (\<lambda>a. [])(0 := [Fin 1, Fin 2, Fin 1, Fin 2, Fin 1, Fin 2]),
                     next_array := Suc 0\<rparr>)"
  by (simp add: normalize_def asarray_def rows_array_def alloc_def replace_missing_def
      fresh_state_def example2_data_def example_state_def)

lemma example2_clean_columns:
  "clean_columns example2_data (MissingStr ''NaN'') example_state = [[1, 1, 1], [2, 2, 2]]"
  unfolding clean_columns_def example2_normalize
  by (simp add: clean_column_def column_def upt_rec example_state_def fresh_state_def)

lemma example2_loop:
  "columns_loop example_libs \<lparr>base = 0, shape = Rank2 3 2, dtype = Float64, offset = 0\<rparr>
       (Suc 0) 0 [0..<2] (init_frame 2)
       (example_state\<lparr>arrays := (\<lambda>a. [])(0 := [Fin 1, Fin 2, Fin 1, Fin 2, Fin 1, Fin 2]),
                     next_array := Suc 0\<rparr>) =
     (Inr example2_frame,
      example_state\<lparr>arrays := (\<lambda>a. [])(0 := [Fin 1, Fin 2, Fin 1, Fin 2, Fin 1, Fin 2]),
                     next_array := Suc 0\<rparr>)"
  by (simp add: loop_body_def clean_column_def column_def summary_constant3
      init_frame_def handle_labels_def plot_column_def emit_def Let_def upt_rec
      example_state_def fresh_state_def example2_frame_def numeral_eq_Suc)

lemma example2_run:
  "fst (statdesc example_libs example2_data (MissingStr ''NaN'') (Given (Suc 0)) (5 / 100) 0
         example_state) = Inr example2_results"
proof -
  let ?d = "\<lparr>base = 0, shape = Rank2 3 2, dtype = Float64, offset = 0\<rparr>"
  let ?s = "example_state\<lparr>arrays := (\<lambda>a. [])(0 := [Fin 1, Fin 2, Fin 1, Fin 2, Fin 1, Fin 2]),
                     next_array := Suc 0\<rparr>"
  have l: "columns_loop example_libs ?d (labels_addr (Given (Suc 0))) 0 [0..<ncols ?d]
       (init_frame (ncols ?d)) ?s = (Inr example2_frame, ?s)"
    using example2_loop by simp
  have p: "summary_plots example_libs 0 (ncols ?d) = Inr ()"
    by (simp add: summary_plots_def)
  have n: "ncols ?d \<le> length (lists ?s (labels_addr (Given (Suc 0))))"
    by (simp add: example_state_def)
  have r: "results_of (fst (variance_test example_libs
       (example2_frame\<lparr>x_cols := remove_empty 0 (x_cols example2_frame)\<rparr>) s)) = example2_results" for s
    by (simp add: remove_empty_0 variance_test_def results_of_def all_gt_def example2_frame_def
        example2_results_def example_libs_def)
  show ?thesis
    using statdesc_returns [OF example2_normalize l p n] r by simp
qed

lemma example2_tests:
  "tests_of (trace (snd (statdesc example_libs example2_data (MissingStr ''NaN'') (Given (Suc 0))
       (5 / 100) 0 example_state))) = [Bartlett [[1, 1, 1], [2, 2, 2]]]"
  using statdesc_eq_var [OF example2_run]
  by (simp add: example2_clean_columns example2_results_def example_libs_def example_state_trace)

subsection \<open>Labels, arrays and calls without plots\<close>

lemma returns_iff: "returns out \<longleftrightarrow> (\<exists>r. fst out = Inr r)"
  by (cases "fst out") (simp_all add: returns_def)

lemma summary_nonempty: "v \<noteq> [] \<Longrightarrow> \<exists>p. summary lib v = Inr p"
  by (simp add: summary_def Let_def)

lemma loop_body_no_plot:
  assumes "\<not> (shw > 1 \<and> plt lib)"
  shows "\<exists>l' st'. loop_body lib d lab shw i l st = (Inr l', st')"
proof (cases "clean_column st d i = []")
  case True
  then show ?thesis by (simp add: loop_body_def Let_def)
next
  case False
  then obtain p where "summary lib (clean_column st d i) = Inr p"
    using summary_nonempty by blast
  then show ?thesis
    using False assms
    by (cases p) (auto simp: loop_body_def Let_def plot_column_def)
qed

lemma columns_loop_no_plot:
  assumes "\<not> (shw > 1 \<and> plt lib)"
  shows "\<exists>l' st'. columns_loop lib d lab shw is l st = (Inr l', st')"
proof (induction "is" arbitrary: l st)
  case Nil
  show ?case by simp
next
  case (Cons i "is")
  obtain l1 s1 where "loop_body lib d lab shw i l st = (Inr l1, s1)"
    using loop_body_no_plot [OF assms] by blast
  then show ?case
    using Cons.IH [of l1 s1] by simp
qed

lemma label_synthesis_columns:
  "label_synthesis (map f [0..<n]) ls =
     foldl (\<lambda>ls' i. handle_labels i ls') ls (filter (\<lambda>i. f i \<noteq> []) [0..<n])"
proof -
  have "filter (\<lambda>i. map f [0..<n] ! i \<noteq> []) [0..<n] = filter (\<lambda>i. f i \<noteq> []) [0..<n]"
    by (rule filter_cong) simp_all
  then show ?thesis
    by (simp add: label_synthesis_def)
qed

lemma statdesc_labels:
  assumes "returns (statdesc lib data missing labels alpha shw st)"
  shows "lists (snd (statdesc lib data missing labels alpha shw st)) (labels_addr labels) =
           label_synthesis (clean_columns data missing st) (lists st (labels_addr labels))"
proof -
  from assms obtain r where r: "fst (statdesc lib data missing labels alpha shw st) = Inr r"
    by (auto simp: returns_iff)
  from r obtain d st2 l st3 where
    n: "normalize data missing st = (Inr d, st2)" and
    c: "columns_loop lib d (labels_addr labels) shw [0..<ncols d] (init_frame (ncols d)) st2
          = (Inr l, st3)" and
    ls: "lists (snd (statdesc lib data missing labels alpha shw st)) = lists st3"
    by (rule statdesc_Inr)
  have "lists st2 = lists st"
    using normalize_lists [of data missing st] n by simp
  then show ?thesis
    using columns_loop_Inr(5) [OF c]
    by (simp add: ls clean_columns_Inr [OF n] label_synthesis_columns)
qed

lemma statdesc_returns_no_plot:
  assumes "normalize data missing st = (Inr d, st2)"
    and "\<not> (shw \<noteq> 0 \<and> plt lib)"
    and "length (clean_columns data missing st) \<le>
           length (label_synthesis (clean_columns data missing st) (lists st (labels_addr labels)))"
  shows "returns (statdesc lib data missing labels alpha shw st)"
proof -
  have np: "\<not> (shw > 1 \<and> plt lib)" using assms(2) by auto
  obtain l st3 where c: "columns_loop lib d (labels_addr labels) shw [0..<ncols d]
      (init_frame (ncols d)) st2 = (Inr l, st3)"
    using columns_loop_no_plot [OF np] by blast
  have p: "summary_plots lib shw (ncols d) = Inr ()"
    using assms(2) by (auto simp: summary_plots_def)
  have "lists st2 = lists st"
    using normalize_lists [of data missing st] assms(1) by simp
  then have "lists st3 (labels_addr labels) =
      label_synthesis (clean_columns data missing st) (lists st (labels_addr labels))"
    using columns_loop_Inr(5) [OF c]
    by (simp add: clean_columns_Inr [OF assms(1)] label_synthesis_columns)
  then have "ncols d \<le> length (lists st3 (labels_addr labels))"
    using assms(3) by (simp add: clean_columns_Inr [OF assms(1)])
  then show ?thesis
    using statdesc_returns [OF assms(1) c p] by (simp add: returns_iff)
qed










lemma statdesc_lists_loop:
  assumes "normalize data missing st = (Inr d, st2)"
  shows "lists (snd (statdesc lib data missing labels alpha shw st)) =
     lists (snd (columns_loop lib d (labels_addr labels) shw [0..<ncols d]
                   (init_frame (ncols d)) st2))"
proof -
  obtain c st3 where c: "columns_loop lib d (labels_addr labels) shw [0..<ncols d]
      (init_frame (ncols d)) st2 = (c, st3)"
    by (cases "columns_loop lib d (labels_addr labels) shw [0..<ncols d]
      (init_frame (ncols d)) st2")
  show ?thesis
    using assms c
    by (cases c) (simp_all add: statdesc_def Let_def variance_test_frame
        split: sum.split option.split)
qed

lemma clean_columns_nan_one:
  "clean_columns (PyRows [[NaN, Fin 1]]) (MissingStr ''NaN'') st = [[], [1]]"
  by (simp add: clean_columns_def normalize_def asarray_def rows_array_def alloc_def replace_missing_def in_array_def
      clean_column_def column_def upt_rec)

lemma clean_columns_one_two:
  "clean_columns (PyRows [[Fin 1, Fin 2]]) (MissingStr ''NaN'') st = [[1], [2]]"
  by (simp add: clean_columns_def normalize_def asarray_def rows_array_def alloc_def replace_missing_def in_array_def
      clean_column_def column_def upt_rec)

lemma clean_columns_seven_nan:
  "clean_columns (PyRows [[Fin 7, NaN]]) (MissingStr ''NaN'') st = [[7], []]"
  by (simp add: clean_columns_def normalize_def asarray_def rows_array_def alloc_def replace_missing_def in_array_def
      clean_column_def column_def upt_rec)

section \<open>Properties\<close>

subsection \<open>A column of missing values only\<close>

lemma columns_loop_two_columns_second_missing:
  "\<exists>l s. columns_loop lib \<lparr>base = 0, shape = Rank2 (Suc 0) 2, dtype = Float64, offset = 0\<rparr> default_labels 0 [0..<2]
       (init_frame 2)
       (fresh_state\<lparr>arrays := (\<lambda>a. [])(0 := [Fin 1, NaN]), next_array := Suc 0\<rparr>) = (Inr l, s)
     \<and> x_cols l = [[1], []] \<and> min_len l = 0 \<and> lists s default_labels = [''1'']"
  by (simp add: loop_body_def clean_column_def column_def summary_def np_mean_def
      np_std_ddof1_def np_median_def np_percentile_def init_frame_def handle_labels_def
      py_index_def plot_column_def emit_def skip_notice_def str_nat.simps Let_def upt_rec
      fresh_state_def default_labels_def)

lemma statprint_short_labels:
  "snd (statprint r [''1''] al nr 2 nm nx) = Some IndexError"
  by (simp add: statprint_def say_def upt_rec py_index_def)

text \<open>
  C4. A call whose data has a column of missing values only should complete and return
  the six aggregates. The first call of a fresh interpreter on the one-row data
  \<^verbatim>\<open>[[1.0, nan]]\<close>, with \<^verbatim>\<open>labels\<close> omitted and \<^verbatim>\<open>show=0\<close>, does not: the skipped
  second column gets no label, and \<^verbatim>\<open>statprint\<close> raises IndexError at \<^verbatim>\<open>labels[1]\<close>.
\<close>

theorem statdesc_missing_column_raises:
  "fst (statdesc lib (PyRows [[Fin 1, NaN]]) (MissingStr ''NaN'') Omitted (5 / 100) 0 fresh_state)
     = Inl IndexError"
proof -
  let ?d = "\<lparr>base = 0, shape = Rank2 (Suc 0) 2, dtype = Float64, offset = 0\<rparr>"
  let ?s1 = "fresh_state\<lparr>arrays := (\<lambda>a. [])(0 := [Fin 1, NaN]), next_array := Suc 0\<rparr>"
  have a: "normalize (PyRows [[Fin 1, NaN]]) (MissingStr ''NaN'') fresh_state = (Inr ?d, ?s1)"
    by (simp add: normalize_def asarray_def rows_array_def alloc_def replace_missing_def in_array_def fresh_state_def)
  obtain l s where l: "columns_loop lib ?d default_labels 0 [0..<2] (init_frame 2) ?s1 = (Inr l, s)"
    and x: "x_cols l = [[1], []]" and m: "min_len l = 0" and ls: "lists s default_labels = [''1'']"
    using columns_loop_two_columns_second_missing by blast
  have r: "remove_empty 0 [[1], []] = [[1::real]]"
    by (simp add: remove_empty.simps)
  show ?thesis
    by (simp add: statdesc_def a l x m ls r statprint_short_labels variance_test_def
        summary_plots_def Let_def)
qed

text \<open>
  C6. Every column without a usable label, skipped columns included, should get the
  label \<^verbatim>\<open>str(i+1)\<close> at position \<open>i\<close>. On the one-row data \<^verbatim>\<open>[[nan, 1.0]]\<close>
  with \<^verbatim>\<open>show=0\<close>: given the labels \<^verbatim>\<open>['', '']\<close> the call returns and leaves
  \<^verbatim>\<open>['', '2']\<close>, the skipped first column still without a label; given the labels
  \<^verbatim>\<open>[]\<close> it leaves \<^verbatim>\<open>['2']\<close>, the label of the second column at position 0.
\<close>

theorem skipped_column_gets_no_label:
  "returns (statdesc lib (PyRows [[NaN, Fin 1]]) (MissingStr ''NaN'') (Given (Suc 0)) (5 / 100) 0
      (fresh_state\<lparr>lists := (\<lambda>a. [])(Suc 0 := [[], []])\<rparr>)) \<and>
   lists (snd (statdesc lib (PyRows [[NaN, Fin 1]]) (MissingStr ''NaN'') (Given (Suc 0)) (5 / 100) 0
      (fresh_state\<lparr>lists := (\<lambda>a. [])(Suc 0 := [[], []])\<rparr>))) (Suc 0) = [[], ''2''] \<and>
   lists (snd (statdesc lib (PyRows [[NaN, Fin 1]]) (MissingStr ''NaN'') (Given (Suc 0)) (5 / 100) 0
      fresh_state)) (Suc 0) = [''2'']"
proof -
  let ?st = "fresh_state\<lparr>lists := (\<lambda>a. [])(Suc 0 := [[], []])\<rparr>"
  obtain d st2 where n: "normalize (PyRows [[NaN, Fin 1]]) (MissingStr ''NaN'') ?st = (Inr d, st2)"
    by (simp add: normalize_def asarray_def rows_array_def alloc_def replace_missing_def in_array_def)
  have s: "label_synthesis [[], [1]] [[], []] = [[], ''2'']"
    by (simp add: label_synthesis_def handle_labels_def upt_rec str_nat.simps)
  have r: "returns (statdesc lib (PyRows [[NaN, Fin 1]]) (MissingStr ''NaN'') (Given (Suc 0))
      (5 / 100) 0 ?st)"
    by (rule statdesc_returns_no_plot [OF n]) (simp_all add: clean_columns_nan_one s)
  have 1: "lists (snd (statdesc lib (PyRows [[NaN, Fin 1]]) (MissingStr ''NaN'') (Given (Suc 0))
      (5 / 100) 0 ?st)) (Suc 0) = [[], ''2'']"
    using statdesc_labels [OF r] by (simp add: clean_columns_nan_one s)
  let ?d = "\<lparr>base = 0, shape = Rank2 (Suc 0) 2, dtype = Float64, offset = 0\<rparr>"
  let ?s2 = "fresh_state\<lparr>arrays := (\<lambda>a. [])(0 := [NaN, Fin 1]), next_array := Suc 0\<rparr>"
  have n': "normalize (PyRows [[NaN, Fin 1]]) (MissingStr ''NaN'') fresh_state = (Inr ?d, ?s2)"
    by (simp add: normalize_def asarray_def rows_array_def alloc_def replace_missing_def in_array_def fresh_state_def)
  have "lists (snd (columns_loop lib ?d (Suc 0) 0 [0..<2] (init_frame 2) ?s2)) (Suc 0) = [''2'']"
    by (simp add: loop_body_def clean_column_def column_def summary_single init_frame_def
        handle_labels_def plot_column_def emit_def Let_def upt_rec fresh_state_def
        str_nat.simps)
  then have 2: "lists (snd (statdesc lib (PyRows [[NaN, Fin 1]]) (MissingStr ''NaN'')
      (Given (Suc 0)) (5 / 100) 0 fresh_state)) (Suc 0) = [''2'']"
    by (simp add: statdesc_lists_loop [OF n'])
  show ?thesis
    using r 1 2 by simp
qed

subsection \<open>The variance test\<close>

text \<open>
  C2. When a call returns and a variance test has run, the test is Bartlett's exactly
  when every row of the returned normality array has a p-value that is a number above
  0.05, and Levene's (centered on the median) otherwise; it is called on the non-empty
  CleanColumns.
\<close>

theorem variance_test_choice:
  assumes "fst (statdesc lib data missing labels alpha shw st) = Inr r"
    and "tests_of (trace (snd (statdesc lib data missing labels alpha shw st))) \<noteq> tests_of (trace st)"
  shows "tests_of (trace (snd (statdesc lib data missing labels alpha shw st))) =
           tests_of (trace st) @
             [if \<forall>i<length (normality r). \<exists>p. snd (normality r ! i) = Fin p \<and> 5 / 100 < p
              then Bartlett (filter (\<lambda>v. v \<noteq> []) (clean_columns data missing st))
              else Levene (filter (\<lambda>v. v \<noteq> []) (clean_columns data missing st))]"
  using statdesc_test_choice [OF assms] by (simp only: all_gt_iff)

theorem variance_test_choice_witness:
  "fst (statdesc example_libs example2_data (MissingStr ''NaN'') (Given (Suc 0)) (5 / 100) 0
         example_state) = Inr example2_results \<and>
   tests_of (trace (snd (statdesc example_libs example2_data (MissingStr ''NaN'') (Given (Suc 0))
       (5 / 100) 0 example_state))) \<noteq> tests_of (trace example_state) \<and>
   normality example2_results = [(Fin 1, Fin 1), (Fin 1, Fin 1)] \<and>
   tests_of (trace (snd (statdesc example_libs example2_data (MissingStr ''NaN'') (Given (Suc 0))
       (5 / 100) 0 example_state))) =
     tests_of (trace example_state) @ [Bartlett [[1, 1, 1], [2, 2, 2]]] \<and>
   fst (statdesc example_libs example_data (MissingStr ''NaN'') (Given (Suc 0)) (5 / 100) 0
         example_state) = Inr example_results \<and>
   tests_of (trace (snd (statdesc example_libs example_data (MissingStr ''NaN'') (Given (Suc 0))
       (5 / 100) 0 example_state))) \<noteq> tests_of (trace example_state) \<and>
   snd (normality example_results ! 2) = NaN \<and>
   tests_of (trace (snd (statdesc example_libs example_data (MissingStr ''NaN'') (Given (Suc 0))
       (5 / 100) 0 example_state))) =
     tests_of (trace example_state) @ [Levene [[1, 1, 1], [2, 2, 2], [5]]]"
proof -
  have t2: "tests_of (trace (snd (statdesc example_libs example2_data (MissingStr ''NaN'')
      (Given (Suc 0)) (5 / 100) 0 example_state))) \<noteq> tests_of (trace example_state)"
    using example2_tests by (simp add: example_state_trace)
  have n2: "normality example2_results = [(Fin 1, Fin 1), (Fin 1, Fin 1)]"
    by (simp add: example2_results_def)
  have c2: "\<forall>i<length (normality example2_results).
      \<exists>p. snd (normality example2_results ! i) = Fin p \<and> 5 / 100 < p"
    by (simp add: n2 less_Suc_eq numeral_2_eq_2 all_conj_distrib)
  have t: "tests_of (trace (snd (statdesc example_libs example_data (MissingStr ''NaN'')
      (Given (Suc 0)) (5 / 100) 0 example_state))) \<noteq> tests_of (trace example_state)"
    using example_tests by (simp add: example_state_trace)
  have n: "snd (normality example_results ! 2) = NaN"
    by (simp add: example_results_def)
  have "2 < length (normality example_results)"
    by (simp add: example_results_def)
  then have c: "\<not> (\<forall>i<length (normality example_results).
      \<exists>p. snd (normality example_results ! i) = Fin p \<and> 5 / 100 < p)"
    using n by (auto intro!: exI [of _ 2])
  show ?thesis
    using variance_test_choice [OF example2_run t2] variance_test_choice [OF example_run t]
      example2_run example_run t2 t n2 n c2 c
    by (simp add: example2_clean_columns example_clean_columns)
qed

text \<open>
  C3. When a call returns: if at least two CleanColumns are non-empty and at least two
  have more than two values, exactly one variance test is called and \<open>eq_var\<close> is its
  result; otherwise no test is called and \<open>eq_var\<close> is still (NaN, NaN).
\<close>

theorem eq_var_computed_iff:
  assumes "fst (statdesc lib data missing labels alpha shw st) = Inr r"
  shows "(if 1 < length (filter (\<lambda>v. v \<noteq> []) (clean_columns data missing st)) \<and>
             1 < length (filter (\<lambda>v. 2 < length v) (clean_columns data missing st))
          then (tests_of (trace (snd (statdesc lib data missing labels alpha shw st))) =
                  tests_of (trace st) @ [Bartlett (filter (\<lambda>v. v \<noteq> []) (clean_columns data missing st))] \<and>
                eq_var r = bartlett lib (filter (\<lambda>v. v \<noteq> []) (clean_columns data missing st))) \<or>
               (tests_of (trace (snd (statdesc lib data missing labels alpha shw st))) =
                  tests_of (trace st) @ [Levene (filter (\<lambda>v. v \<noteq> []) (clean_columns data missing st))] \<and>
                eq_var r = levene_median lib (filter (\<lambda>v. v \<noteq> []) (clean_columns data missing st)))
          else tests_of (trace (snd (statdesc lib data missing labels alpha shw st))) = tests_of (trace st) \<and>
               eq_var r = (NaN, NaN))"
  using assms by (rule statdesc_eq_var)

theorem eq_var_computed_iff_witness:
  "fst (statdesc example_libs example_data (MissingStr ''NaN'') (Given (Suc 0)) (5 / 100) 0
         example_state) = Inr example_results \<and>
   tests_of (trace (snd (statdesc example_libs example_data (MissingStr ''NaN'') (Given (Suc 0))
       (5 / 100) 0 example_state))) = [Levene [[1, 1, 1], [2, 2, 2], [5]]] \<and>
   eq_var example_results = levene_median example_libs [[1, 1, 1], [2, 2, 2], [5]]"
  using eq_var_computed_iff [OF example_run] example_run
  by (simp add: example_clean_columns example_results_def example_libs_def example_state_trace)

text \<open>
  C9. When a call returns, a variance test has run and some column has at most two
  values left (or none), that column's normality row is (NaN, NaN) and the test that
  was called is Levene's, not Bartlett's.
\<close>

theorem nan_normality_selects_levene:
  assumes "fst (statdesc lib data missing labels alpha shw st) = Inr r"
    and "tests_of (trace (snd (statdesc lib data missing labels alpha shw st))) \<noteq> tests_of (trace st)"
    and "i < length (clean_columns data missing st)"
    and "length (clean_columns data missing st ! i) \<le> 2"
  shows "normality r ! i = (NaN, NaN) \<and>
         tests_of (trace (snd (statdesc lib data missing labels alpha shw st))) =
           tests_of (trace st) @ [Levene (filter (\<lambda>v. v \<noteq> []) (clean_columns data missing st))]"
proof -
  have n: "normality r ! i = (NaN, NaN)"
  proof (cases "clean_columns data missing st ! i = []")
    case True
    then show ?thesis
      using statdesc_rows(2) [OF assms(1,3)] by (simp add: profile_at_def undefined_profile_def)
  next
    case False
    then show ?thesis
      using statdesc_rows(3) [OF assms(1,3)] summary_short_normality [OF assms(4)]
      by (fastforce simp: profile_at_def)
  qed
  have "length (normality r) = length (clean_columns data missing st)"
    using statdesc_rows(1) [OF assms(1)] by (simp add: row_counts_def numeral_eq_Suc)
  then have "normality r ! i \<in> set (normality r)"
    using assms(3) by simp
  then have "\<not> all_gt (normality r) (5 / 100)"
    using n by (auto simp: all_gt_def list_all_iff intro!: bexI [of _ "(NaN, NaN)"])
  then show ?thesis
    using statdesc_test_choice [OF assms(1,2)] n by simp
qed

theorem nan_normality_selects_levene_witness:
  "fst (statdesc example_libs example_data (MissingStr ''NaN'') (Given (Suc 0)) (5 / 100) 0
         example_state) = Inr example_results \<and>
   tests_of (trace (snd (statdesc example_libs example_data (MissingStr ''NaN'') (Given (Suc 0))
       (5 / 100) 0 example_state))) \<noteq> tests_of (trace example_state) \<and>
   3 < length (clean_columns example_data (MissingStr ''NaN'') example_state) \<and>
   length (clean_columns example_data (MissingStr ''NaN'') example_state ! 3) \<le> 2 \<and>
   normality example_results ! 3 = (NaN, NaN) \<and>
   tests_of (trace (snd (statdesc example_libs example_data (MissingStr ''NaN'') (Given (Suc 0))
       (5 / 100) 0 example_state))) =
     tests_of (trace example_state) @ [Levene [[1, 1, 1], [2, 2, 2], [5]]]"
proof -
  have t: "tests_of (trace (snd (statdesc example_libs example_data (MissingStr ''NaN'')
      (Given (Suc 0)) (5 / 100) 0 example_state))) \<noteq> tests_of (trace example_state)"
    using example_tests by (simp add: example_state_trace)
  have 1: "3 < length (clean_columns example_data (MissingStr ''NaN'') example_state)"
    by (simp add: example_clean_columns)
  have 2: "length (clean_columns example_data (MissingStr ''NaN'') example_state ! 3) \<le> 2"
    by (simp add: example_clean_columns)
  show ?thesis
    using nan_normality_selects_levene [OF example_run t 1 2] example_run t 1 2
    by (simp add: example_clean_columns)
qed

subsection \<open>The per-column aggregates\<close>

text \<open>
  C7. When a call returns, each of the five per-column aggregates has one row for
  each column of the data, and the rows of a column with missing values only hold NaN in
  every field.
\<close>

theorem profile_rows_per_column:
  assumes "fst (statdesc lib data missing labels alpha shw st) = Inr r"
  shows "row_counts r = replicate 5 (length (clean_columns data missing st)) \<and>
         (\<forall>i < length (clean_columns data missing st).
            clean_columns data missing st ! i = [] \<longrightarrow> profile_at r i = undefined_profile)"
  using statdesc_rows(1,2) [OF assms] by simp

theorem profile_rows_per_column_witness:
  "fst (statdesc example_libs example_data (MissingStr ''NaN'') (Given (Suc 0)) (5 / 100) 0
         example_state) = Inr example_results \<and>
   length (clean_columns example_data (MissingStr ''NaN'') example_state) = 4 \<and>
   clean_columns example_data (MissingStr ''NaN'') example_state ! 3 = [] \<and>
   row_counts example_results = [4, 4, 4, 4, 4] \<and>
   profile_at example_results 3 = undefined_profile"
  using profile_rows_per_column [OF example_run] example_run
  by (simp add: example_clean_columns numeral_eq_Suc)

text \<open>
  C8. When a call returns, the profile of a column whose CleanColumn is the single
  value \<open>v\<close> has mean \<open>v\<close>, standard deviation NaN, both confidence limits NaN,
  minimum, maximum, median and both percentiles \<open>v\<close>, and both normality fields NaN.
\<close>

theorem single_value_profile:
  assumes "fst (statdesc lib data missing labels alpha shw st) = Inr r"
    and "i < length (clean_columns data missing st)"
    and "clean_columns data missing st ! i = [v]"
  shows "profile_at r i =
           ((Fin v, NaN), (NaN, NaN), (Fin v, Fin v), (Fin v, Fin v, Fin v), (NaN, NaN))"
  using statdesc_rows(3) [OF assms(1,2)] assms(3) by (simp add: summary_single)

theorem single_value_profile_witness:
  "fst (statdesc example_libs example_data (MissingStr ''NaN'') (Given (Suc 0)) (5 / 100) 0
         example_state) = Inr example_results \<and>
   2 < length (clean_columns example_data (MissingStr ''NaN'') example_state) \<and>
   clean_columns example_data (MissingStr ''NaN'') example_state ! 2 = [5] \<and>
   profile_at example_results 2 =
     ((Fin 5, NaN), (NaN, NaN), (Fin 5, Fin 5), (Fin 5, Fin 5, Fin 5), (NaN, NaN))"
proof -
  have 1: "2 < length (clean_columns example_data (MissingStr ''NaN'') example_state)"
    by (simp add: example_clean_columns)
  have 2: "clean_columns example_data (MissingStr ''NaN'') example_state ! 2 = [5]"
    by (simp add: example_clean_columns)
  show ?thesis
    using single_value_profile [OF example_run 1 2] example_run 1 2 by simp
qed

subsection \<open>The confidence interval\<close>

text \<open>
  C1. The confidence limits should be the mean plus and minus the 97.5th percentile
  of Student's t distribution (n - 1 degrees of freedom) times sd / sqrt n. For the column
  \<open>[0, 2]\<close> (mean 1, sd sqrt 2, hence sd / sqrt n = 1) the code returns 1 minus and
  plus \<^verbatim>\<open>stats.t._pdf(.975, 1)\<close>: the value of the density at the point 0.975, not
  the percentile.
\<close>

theorem summary_ci_uses_density:
  "summary lib [0, 2] =
     Inr ((Fin 1, Fin (sqrt 2)),
          (Fin (1 - t_pdf lib (975 / 1000) 1), Fin (1 + t_pdf lib (975 / 1000) 1)),
          (Fin 0, Fin 2), (Fin 1, Fin (1 / 2), Fin (3 / 2)), (NaN, NaN))"
  by (simp add: summary_def np_mean_def np_std_ddof1_def np_median_def np_percentile_def
      conf_limits_def Let_def)

subsection \<open>Effects on the objects of the caller\<close>




text \<open>
  C10. The default of \<^verbatim>\<open>labels\<close> is one list object shared by all calls: when two
  successive calls omit \<^verbatim>\<open>labels\<close> and return, the first leaves in that list the labels
  it has synthesized, and the second starts its label handling from them, not from an
  empty list.
\<close>

theorem default_labels_shared:
  assumes "returns (statdesc lib data1 missing1 Omitted alpha1 shw1 st)"
    and "returns (statdesc lib data2 missing2 Omitted alpha2 shw2
                   (snd (statdesc lib data1 missing1 Omitted alpha1 shw1 st)))"
  shows "lists (snd (statdesc lib data1 missing1 Omitted alpha1 shw1 st)) default_labels =
           label_synthesis (clean_columns data1 missing1 st) (lists st default_labels) \<and>
         lists (snd (statdesc lib data2 missing2 Omitted alpha2 shw2
                   (snd (statdesc lib data1 missing1 Omitted alpha1 shw1 st)))) default_labels =
           label_synthesis
             (clean_columns data2 missing2 (snd (statdesc lib data1 missing1 Omitted alpha1 shw1 st)))
             (label_synthesis (clean_columns data1 missing1 st) (lists st default_labels))"
  using statdesc_labels [OF assms(1)] statdesc_labels [OF assms(2)] by simp

theorem default_labels_shared_witness:
  "returns (statdesc example_libs (PyRows [[Fin 1, Fin 2]]) (MissingStr ''NaN'') Omitted (5 / 100) 0
      fresh_state) \<and>
   returns (statdesc example_libs (PyRows [[Fin 7, NaN]]) (MissingStr ''NaN'') Omitted (5 / 100) 0
      (snd (statdesc example_libs (PyRows [[Fin 1, Fin 2]]) (MissingStr ''NaN'') Omitted (5 / 100) 0
         fresh_state))) \<and>
   lists fresh_state default_labels = [] \<and>
   lists (snd (statdesc example_libs (PyRows [[Fin 1, Fin 2]]) (MissingStr ''NaN'') Omitted (5 / 100) 0
      fresh_state)) default_labels = [''1'', ''2''] \<and>
   lists (snd (statdesc example_libs (PyRows [[Fin 7, NaN]]) (MissingStr ''NaN'') Omitted (5 / 100) 0
      (snd (statdesc example_libs (PyRows [[Fin 1, Fin 2]]) (MissingStr ''NaN'') Omitted (5 / 100) 0
         fresh_state)))) default_labels = [''1'', ''2'']"
proof -
  let ?c1 = "statdesc example_libs (PyRows [[Fin 1, Fin 2]]) (MissingStr ''NaN'') Omitted (5 / 100) 0
      fresh_state"
  have e: "lists fresh_state default_labels = []"
    by (simp add: fresh_state_def)
  have s1: "label_synthesis [[1], [2]] [] = [''1'', ''2'']"
    by (simp add: label_synthesis_def handle_labels_def upt_rec str_nat.simps)
  have s2: "label_synthesis [[7], []] [''1'', ''2''] = [''1'', ''2'']"
    by (simp add: label_synthesis_def handle_labels_def upt_rec)
  have np: "\<not> ((0::int) \<noteq> 0 \<and> plt example_libs)" by simp
  obtain d st2 where n1: "normalize (PyRows [[Fin 1, Fin 2]]) (MissingStr ''NaN'') fresh_state
      = (Inr d, st2)"
    by (simp add: normalize_def asarray_def rows_array_def alloc_def replace_missing_def in_array_def)
  have r1: "returns ?c1"
    by (rule statdesc_returns_no_plot [OF n1 np]) (simp add: clean_columns_one_two e s1)
  have l1: "lists (snd ?c1) default_labels = [''1'', ''2'']"
    using statdesc_labels [OF r1] by (simp add: clean_columns_one_two e s1)
  obtain d' st2' where n2: "normalize (PyRows [[Fin 7, NaN]]) (MissingStr ''NaN'') (snd ?c1)
      = (Inr d', st2')"
    by (simp add: normalize_def asarray_def rows_array_def alloc_def replace_missing_def in_array_def)
  have r2: "returns (statdesc example_libs (PyRows [[Fin 7, NaN]]) (MissingStr ''NaN'') Omitted
      (5 / 100) 0 (snd ?c1))"
    by (rule statdesc_returns_no_plot [OF n2 np]) (use l1 in \<open>simp add: clean_columns_seven_nan s2\<close>)
  show ?thesis
    using default_labels_shared [OF r1 r2] r1 r2 e
    by (simp add: clean_columns_one_two clean_columns_seven_nan s1 s2)
qed

end
